theory Spec2Isabelle
  imports Complex_Main
begin

section \<open>JavaScript values\<close>

text \<open>
  The database layer is the class \<open>Wpdb\<close> of \<open>wp-includes/class-wpdb.js\<close>. A JavaScript
  string is a sequence of UTF-16 code units; a code unit is modelled by its numeric value.
  \<open>str\<close> turns an ASCII literal into such a string.
\<close>

type_synonym jsstring = "nat list"

definition str :: "string \<Rightarrow> jsstring" where
  "str s = map of_char s"

text \<open>
  What a call can end in: a returned value, a thrown exception, or the end of the process
  (\<open>process.exit\<close>). \<open>DriverError\<close> is a rejection that comes from the database driver.
\<close>

datatype js_error = TypeError | ReferenceError | DriverError | PlainError

datatype 'a outcome = Returned 'a | Threw js_error | Exited

datatype js_val =
    JUndefined
  | JNull
  | JBool bool
  | JNum int
  | JNaN
  | JStr jsstring
  | JArr "js_val list"

text \<open>\<open>process.env\<close>: a variable is unset or holds a string; the empty string is falsy.\<close>

type_synonym process_env = "string \<rightharpoonup> string"

definition env_truthy :: "process_env \<Rightarrow> string \<Rightarrow> bool" where
  "env_truthy env k = (case env k of None \<Rightarrow> False | Some v \<Rightarrow> v \<noteq> [])"

text \<open>Decimal text of an integer-valued number, as a template literal renders it.\<close>

function dec_digits :: "nat \<Rightarrow> jsstring" where
  "dec_digits n = (if n < 10 then [48 + n] else dec_digits (n div 10) @ [48 + n mod 10])"
  by pat_completeness auto
termination
  by (relation "measure id") auto

definition Number_toString :: "int \<Rightarrow> jsstring" where
  "Number_toString n = (if n < 0 then 45 # dec_digits (nat (- n)) else dec_digits (nat n))"

text \<open>
  Numbers are IEEE doubles; the integers every double represents exactly, and that print
  as plain decimal digits, are the safe integers.
\<close>

definition safe_integer :: "int \<Rightarrow> bool" where
  "safe_integer n = (\<bar>n\<bar> < 2 ^ 53)"

section \<open>String methods\<close>

text \<open>\<open>String.prototype.slice(start, end)\<close>: a negative index counts from the end.\<close>

definition slice_index :: "nat \<Rightarrow> int \<Rightarrow> nat" where
  "slice_index len k = (if k < 0 then nat (max (int len + k) 0) else min (nat k) len)"

definition js_slice :: "jsstring \<Rightarrow> int \<Rightarrow> int option \<Rightarrow> jsstring" where
  "js_slice s start end_arg =
     (let len = length s;
          from = slice_index len start;
          to = (case end_arg of None \<Rightarrow> len | Some e \<Rightarrow> slice_index len e)
      in take (to - from) (drop from s))"

text \<open>\<open>indexOf\<close> of a single code unit; \<open>None\<close> stands for \<open>-1\<close>.\<close>

fun indexOf :: "jsstring \<Rightarrow> nat \<Rightarrow> nat option" where
  "indexOf [] ch = None"
| "indexOf (c # cs) ch = (if c = ch then Some 0 else map_option Suc (indexOf cs ch))"

text \<open>
  \<open>parseInt(s, 10)\<close>: leading white space is skipped, a sign is read, then the longest
  run of decimal digits; without a digit the result is \<open>NaN\<close>, here \<open>None\<close>.
\<close>

definition js_whitespace :: "nat \<Rightarrow> bool" where
  "js_whitespace c =
     ((9 \<le> c \<and> c \<le> 13) \<or> c = 32 \<or> c = 160 \<or> c = 5760 \<or> (8192 \<le> c \<and> c \<le> 8202)
      \<or> c = 8232 \<or> c = 8233 \<or> c = 8239 \<or> c = 8287 \<or> c = 12288 \<or> c = 65279)"

definition is_digit :: "nat \<Rightarrow> bool" where
  "is_digit c = (48 \<le> c \<and> c \<le> 57)"

fun digits_value :: "nat \<Rightarrow> jsstring \<Rightarrow> nat" where
  "digits_value acc [] = acc"
| "digits_value acc (c # cs) = digits_value (acc * 10 + (c - 48)) cs"

definition parseInt :: "jsstring \<Rightarrow> int option" where
  "parseInt s =
     (let t = dropWhile js_whitespace s;
          neg = (t \<noteq> [] \<and> hd t = 45);
          u = (if t \<noteq> [] \<and> (hd t = 45 \<or> hd t = 43) then tl t else t);
          ds = takeWhile is_digit u
      in if ds = [] then None
         else Some (if neg then - int (digits_value 0 ds) else int (digits_value 0 ds)))"

text \<open>
  \<open>ToString\<close> of the values that reach a string concatenation, and the binary \<open>+\<close>:
  it concatenates as soon as one operand is a string, and adds numbers otherwise
  (\<open>undefined + undefined\<close> is \<open>NaN\<close>).
\<close>

fun join_comma :: "jsstring list \<Rightarrow> jsstring" where
  "join_comma [] = []"
| "join_comma [x] = x"
| "join_comma (x # y # ys) = x @ [44] @ join_comma (y # ys)"

fun to_str :: "js_val \<Rightarrow> jsstring" where
  "to_str JUndefined = str ''undefined''"
| "to_str JNull = str ''null''"
| "to_str (JBool b) = (if b then str ''true'' else str ''false'')"
| "to_str (JNum n) = Number_toString n"
| "to_str JNaN = str ''NaN''"
| "to_str (JStr s) = s"
| "to_str (JArr xs) =
     join_comma (map (\<lambda>x. if x = JUndefined \<or> x = JNull then [] else to_str x) xs)"

fun is_JStr :: "js_val \<Rightarrow> bool" where
  "is_JStr (JStr s) = True"
| "is_JStr v = False"

definition js_plus :: "js_val \<Rightarrow> js_val \<Rightarrow> js_val" where
  "js_plus a b =
     (if is_JStr a \<or> is_JStr b then JStr (to_str a @ to_str b)
      else (case (a, b) of (JNum x, JNum y) \<Rightarrow> JNum (x + y) | _ \<Rightarrow> JNaN))"

text \<open>Reading an array element: an index past the end gives \<open>undefined\<close>.\<close>

definition js_nth :: "js_val list \<Rightarrow> nat \<Rightarrow> js_val" where
  "js_nth xs k = (if k < length xs then xs ! k else JUndefined)"

text \<open>Truthiness, and \<open>v || ''\<close> turned into text.\<close>

fun js_truthy :: "js_val \<Rightarrow> bool" where
  "js_truthy JUndefined = False"
| "js_truthy JNull = False"
| "js_truthy (JBool b) = b"
| "js_truthy (JNum n) = (n \<noteq> 0)"
| "js_truthy JNaN = False"
| "js_truthy (JStr s) = (s \<noteq> [])"
| "js_truthy (JArr xs) = True"

definition or_empty :: "js_val \<Rightarrow> jsstring" where
  "or_empty v = (if js_truthy v then to_str v else [])"

section \<open>Regular expressions\<close>

text \<open>
  The regular expressions of the source are written as terms of \<open>regex\<close> and run by a
  backtracking matcher that follows the ECMAScript semantics: \<open>rx_match\<close> returns the end
  positions and captures of every way the pattern matches at a position, in the order
  in which backtracking tries them, so that the head of the list is the match the
  engine reports. A capture group that did not take part is \<open>None\<close> (\<open>undefined\<close>).
  A quantified group clears its captures at each iteration, and an iteration of a
  quantifier with minimum 0 that consumes nothing is refused.
\<close>

type_synonym captures = "nat \<Rightarrow> jsstring option"

datatype regex =
    Eps
  | Cls "nat \<Rightarrow> bool"
  | Bol
  | Seq regex regex
  | Alt regex regex
  | Rep regex nat "nat option"
  | Grp nat regex
  | NegLook regex

primrec rsize :: "regex \<Rightarrow> nat" where
  "rsize Eps = 1"
| "rsize (Cls p) = 1"
| "rsize Bol = 1"
| "rsize (Seq a b) = Suc (rsize a + rsize b)"
| "rsize (Alt a b) = Suc (rsize a + rsize b)"
| "rsize (Rep a mn mx) = Suc (rsize a)"
| "rsize (Grp k a) = Suc (rsize a)"
| "rsize (NegLook a) = Suc (rsize a)"

primrec rep_min :: "regex \<Rightarrow> nat" where
  "rep_min Eps = 0"
| "rep_min (Cls p) = 0"
| "rep_min Bol = 0"
| "rep_min (Seq a b) = 0"
| "rep_min (Alt a b) = 0"
| "rep_min (Rep a mn mx) = mn"
| "rep_min (Grp k a) = 0"
| "rep_min (NegLook a) = 0"

primrec groups :: "regex \<Rightarrow> nat list" where
  "groups Eps = []"
| "groups (Cls p) = []"
| "groups Bol = []"
| "groups (Seq a b) = groups a @ groups b"
| "groups (Alt a b) = groups a @ groups b"
| "groups (Rep a mn mx) = groups a"
| "groups (Grp k a) = k # groups a"
| "groups (NegLook a) = groups a"

definition reset :: "nat list \<Rightarrow> captures \<Rightarrow> captures" where
  "reset ks c = (\<lambda>k. if k \<in> set ks then None else c k)"

fun dec_max :: "nat option \<Rightarrow> nat option" where
  "dec_max None = None"
| "dec_max (Some n) = Some (n - 1)"

text \<open>
  An iteration of a quantifier whose minimum is used up must have consumed input.
\<close>

definition progress :: "jsstring \<Rightarrow> nat \<Rightarrow> nat \<Rightarrow> nat \<times> captures \<Rightarrow> bool" where
  "progress inp mn i y = (mn = 0 \<longrightarrow> i < fst y \<and> i < length inp)"

function rx_match :: "jsstring \<Rightarrow> regex \<Rightarrow> nat \<times> captures \<Rightarrow> (nat \<times> captures) list" where
  "rx_match inp Eps x = [x]"
| "rx_match inp (Cls p) (i, c) =
     (if i < length inp \<and> p (inp ! i) then [(Suc i, c)] else [])"
| "rx_match inp Bol (i, c) = (if i = 0 then [(i, c)] else [])"
| "rx_match inp (Seq a b) x = concat (map (rx_match inp b) (rx_match inp a x))"
| "rx_match inp (Alt a b) x = rx_match inp a x @ rx_match inp b x"
| "rx_match inp (Grp k a) (i, c) =
     map (\<lambda>(j, c'). (j, c'(k := Some (take (j - i) (drop i inp))))) (rx_match inp a (i, c))"
| "rx_match inp (NegLook a) x = (if rx_match inp a x = [] then [x] else [])"
| "rx_match inp (Rep a mn mx) (i, c) =
     (if mx = Some 0 then [(i, c)]
      else concat (map (rx_match inp (Rep a (mn - 1) (dec_max mx)))
                    (filter (progress inp mn i) (rx_match inp a (i, reset (groups a) c))))
           @ (if mn = 0 then [(i, c)] else []))"
  by pat_completeness auto
termination
  by (relation "inv_image (less_than <*lex*> less_than <*lex*> less_than)
        (\<lambda>(inp, r, (i, c)). (rsize r, rep_min r, length inp - i))")
     (auto simp: progress_def)

definition no_caps :: captures where
  "no_caps = (\<lambda>k. None)"

definition Opt :: "regex \<Rightarrow> regex" where
  "Opt r = Rep r 0 (Some 1)"

definition Star :: "regex \<Rightarrow> regex" where
  "Star r = Rep r 0 None"

definition Plus :: "regex \<Rightarrow> regex" where
  "Plus r = Rep r 1 None"

definition chr :: "char \<Rightarrow> regex" where
  "chr ch = Cls (\<lambda>c. c = of_char ch)"

definition rng :: "nat \<Rightarrow> nat \<Rightarrow> nat \<Rightarrow> bool" where
  "rng a b c = (a \<le> c \<and> c \<le> b)"

text \<open>The dot matches every code unit but the four line terminators.\<close>

definition line_terminator :: "nat \<Rightarrow> bool" where
  "line_terminator c = (c = 10 \<or> c = 13 \<or> c = 8232 \<or> c = 8233)"

definition dot :: regex where
  "dot = Cls (\<lambda>c. \<not> line_terminator c)"

text \<open>
  A sticky match at \<open>q\<close> is the head of \<open>rx_match\<close> there; \<open>rx_exec\<close> searches from
  \<open>q\<close> onwards, as \<open>RegExp.prototype.exec\<close> does from \<open>lastIndex\<close>.
\<close>

definition rx_at :: "jsstring \<Rightarrow> regex \<Rightarrow> nat \<Rightarrow> (nat \<times> captures) option" where
  "rx_at inp r q =
     (case rx_match inp r (q, no_caps) of
        [] \<Rightarrow> None
      | (e, c) # rest \<Rightarrow> if q \<le> e \<and> e \<le> length inp then Some (e, c) else None)"

function rx_exec :: "jsstring \<Rightarrow> regex \<Rightarrow> nat \<Rightarrow> (nat \<times> nat \<times> captures) option" where
  "rx_exec inp r q =
     (if length inp < q then None
      else (case rx_at inp r q of
              None \<Rightarrow> rx_exec inp r (Suc q)
            | Some (e, c) \<Rightarrow> Some (q, e, c)))"
  by pat_completeness auto
termination
  by (relation "measure (\<lambda>(inp, r, q). Suc (length inp) - q)") auto

text \<open>
  All matches of a global regular expression, left to right: after a match the search
  resumes at its end, one further after an empty match.
\<close>

function rx_match_all :: "jsstring \<Rightarrow> regex \<Rightarrow> nat \<Rightarrow> (nat \<times> nat \<times> captures) list" where
  "rx_match_all inp r lastIndex =
     (case rx_exec inp r lastIndex of
        None \<Rightarrow> []
      | Some (q, e, c) \<Rightarrow> (q, e, c) # rx_match_all inp r (if e = q then Suc e else e))"
  by pat_completeness auto
termination
proof (relation "measure (\<lambda>(inp, r, k). Suc (length inp) - k)")
  show "wf (measure (\<lambda>(inp, r, k). Suc (length inp) - k))"
    by simp
next
  fix inp :: jsstring and r lastIndex x2 q y e c
  assume ex: "rx_exec inp r lastIndex = Some x2" and x2: "(q, y) = x2" and y: "(e, c) = y"
  have found: "rx_exec inp r k = Some (q', e', c') \<Longrightarrow> k \<le> q' \<and> q' \<le> length inp \<and> q' \<le> e'"
    for k q' e' c'
  proof (induction inp r k rule: rx_exec.induct)
    case (1 inp r k)
    show ?case
    proof (cases "rx_at inp r k")
      case None
      with "1.prems" have "\<not> length inp < k" and "rx_exec inp r (Suc k) = Some (q', e', c')"
        by (auto simp: rx_exec.simps [of inp r k] split: if_splits)
      with "1.IH" None show ?thesis
        by fastforce
    next
      case (Some a)
      with "1.prems" show ?thesis
        by (auto simp: rx_exec.simps [of inp r k] rx_at_def
                 split: if_splits list.splits prod.splits)
    qed
  qed
  from ex x2 y have "rx_exec inp r lastIndex = Some (q, e, c)"
    by simp
  from found [OF this]
  show "((inp, r, if e = q then Suc e else e), (inp, r, lastIndex))
          \<in> measure (\<lambda>(inp, r, k). Suc (length inp) - k)"
    by auto
qed

text \<open>
  A replacement string is a list of literal pieces and group references (\<open>$1\<close>); a
  group that is \<open>undefined\<close> contributes nothing.
\<close>

datatype subst = Lit jsstring | Cap nat

fun expand :: "subst list \<Rightarrow> captures \<Rightarrow> jsstring" where
  "expand [] c = []"
| "expand (Lit s # ps) c = s @ expand ps c"
| "expand (Cap k # ps) c = (case c k of None \<Rightarrow> [] | Some s \<Rightarrow> s) @ expand ps c"

fun rx_build :: "jsstring \<Rightarrow> nat \<Rightarrow> (nat \<times> nat \<times> jsstring) list \<Rightarrow> jsstring" where
  "rx_build inp pos [] = drop pos inp"
| "rx_build inp pos ((q, e, rep) # ms) =
     (if pos \<le> q then take (q - pos) (drop pos inp) @ rep @ rx_build inp e ms
      else rx_build inp pos ms)"

definition replace_all :: "regex \<Rightarrow> subst list \<Rightarrow> jsstring \<Rightarrow> jsstring" where
  "replace_all r tmpl inp =
     rx_build inp 0 (map (\<lambda>(q, e, c). (q, e, expand tmpl c)) (rx_match_all inp r 0))"

text \<open>
  \<open>String.prototype.split\<close> with a regular expression: the pieces between the matches,
  each followed by the capture groups (numbered \<open>n\<close>) of the match that ends it.
\<close>

definition cap_val :: "captures \<Rightarrow> nat \<Rightarrow> js_val" where
  "cap_val c k = (case c k of None \<Rightarrow> JUndefined | Some s \<Rightarrow> JStr s)"

function js_split_loop :: "jsstring \<Rightarrow> regex \<Rightarrow> nat list \<Rightarrow> nat \<Rightarrow> nat \<Rightarrow> js_val list" where
  "js_split_loop inp r n p q =
     (if q < length inp then
        (case rx_at inp r q of
           None \<Rightarrow> js_split_loop inp r n p (Suc q)
         | Some (e, c) \<Rightarrow>
             if min e (length inp) = p then js_split_loop inp r n p (Suc q)
             else JStr (take (q - p) (drop p inp)) # map (cap_val c) n
                  @ js_split_loop inp r n (min e (length inp)) (min e (length inp)))
      else [JStr (drop p inp)])"
  by pat_completeness auto
termination
  by (relation "inv_image (less_than <*lex*> less_than)
        (\<lambda>(inp, r, n, p, q). (length inp - q, if p = q then 0 else (1::nat)))")
     (auto simp: rx_at_def split: list.splits prod.splits if_splits)

definition js_split :: "regex \<Rightarrow> nat list \<Rightarrow> jsstring \<Rightarrow> js_val list" where
  "js_split r n inp =
     (if inp = [] then (case rx_at inp r 0 of None \<Rightarrow> [JStr inp] | Some m \<Rightarrow> [])
      else js_split_loop inp r n 0 0)"

section \<open>The placeholder compiler\<close>

text \<open>
  The class defines \<open>prepare\<close> twice; the second definition replaces the first, so
  \<open>prepare(query, ...args)\<close> of lines 903 to 1106 is the method that runs. Its regular
  expressions, as the source builds them (inside the single-quoted string \<open>allowedFormat\<close>
  the escapes \<open>\'\<close> and \<open>\.\<close> denote a quote and a plain dot):
  \<^verbatim>\<open>
  allowedFormat = (?:[1-9][0-9]*[$])?[-+0-9]*(?: |0|'.)?[-+0-9]*(?:.[0-9]+)?
  /'%([^']+)%'/g        /"%([^']+)%"/g
  new RegExp(`%(?!(${allowedFormat})?[sdfFi])`, 'g')
  new RegExp(`(^|[^%]|(?:%%)+)(%(${allowedFormat})?[sdfFi])`)
  /%(?!^\d+\$)/g        /%/g        /`/g
  \<close>
\<close>

definition sign_or_digit :: "nat \<Rightarrow> bool" where
  "sign_or_digit c = (c = of_char CHR ''-'' \<or> c = of_char CHR ''+'' \<or> is_digit c)"

definition allowedFormat :: regex where
  "allowedFormat =
     Seq (Opt (Seq (Cls (rng 49 57)) (Seq (Star (Cls is_digit)) (chr CHR ''$''))))
    (Seq (Star (Cls sign_or_digit))
    (Seq (Opt (Alt (chr CHR '' '') (Alt (chr CHR ''0'') (Seq (chr (CHR 0x27)) dot))))
    (Seq (Star (Cls sign_or_digit))
         (Opt (Seq dot (Plus (Cls is_digit)))))))"

definition conversion :: "nat \<Rightarrow> bool" where
  "conversion c = (c \<in> set (str ''sdfFi''))"

definition rx_single_quoted :: regex where
  "rx_single_quoted =
     Seq (chr (CHR 0x27)) (Seq (chr CHR ''%'')
       (Seq (Grp 1 (Plus (Cls (\<lambda>c. c \<noteq> 39)))) (Seq (chr CHR ''%'') (chr (CHR 0x27)))))"

definition rx_double_quoted :: regex where
  "rx_double_quoted =
     Seq (chr (CHR 0x22)) (Seq (chr CHR ''%'')
       (Seq (Grp 1 (Plus (Cls (\<lambda>c. c \<noteq> 39)))) (Seq (chr CHR ''%'') (chr (CHR 0x22)))))"

definition rx_unescaped_percent :: regex where
  "rx_unescaped_percent =
     Seq (chr CHR ''%'') (NegLook (Seq (Opt (Grp 1 allowedFormat)) (Cls conversion)))"

definition rx_split :: regex where
  "rx_split =
     Seq (Grp 1 (Alt Bol (Alt (Cls (\<lambda>c. c \<noteq> of_char CHR ''%''))
                              (Plus (Seq (chr CHR ''%'') (chr CHR ''%''))))))
         (Grp 2 (Seq (chr CHR ''%'') (Seq (Opt (Grp 3 allowedFormat)) (Cls conversion))))"

definition rx_percent_argnum :: regex where
  "rx_percent_argnum =
     Seq (chr CHR ''%'') (NegLook (Seq Bol (Seq (Plus (Cls is_digit)) (chr CHR ''$''))))"

definition rx_percent :: regex where
  "rx_percent = chr CHR ''%''"

definition rx_backtick :: regex where
  "rx_backtick = chr (CHR 0x60)"

text \<open>\<open>escapeIdentifierValue(identifier)\<close>: \<open>identifier.replace(/`/g, '``')\<close>.\<close>

definition escapeIdentifierValue :: "jsstring \<Rightarrow> jsstring" where
  "escapeIdentifierValue identifier = replace_all rx_backtick [Lit [96, 96]] identifier"

text \<open>\<open>addPlaceholderEscape(query)\<close>: \<open>query.replace(/%/g, this.placeholderEscape())\<close>.
  The escape token is a keyed hash of a secret and the time, in braces; it is a
  parameter \<open>token\<close> here.\<close>

definition addPlaceholderEscape :: "jsstring \<Rightarrow> jsstring \<Rightarrow> jsstring" where
  "addPlaceholderEscape token query = replace_all rx_percent [Lit token] query"

text \<open>What \<open>console.warn\<close> receives.\<close>

datatype warning =
    MustHavePlaceholder
  | CannotPrepareBoth
  | ConflictsFound "jsstring list"
  | OneExpectedArrayPassed
  | WrongPlaceholderCount rat nat
  | UnsupportedValueType

text \<open>
  The position a placeholder refers to: the number before \<open>$\<close> less one, or the running
  \<open>argID\<close>. \<open>None\<close> is \<open>NaN\<close>.
\<close>

definition arg_position :: "jsstring \<Rightarrow> int \<Rightarrow> int option" where
  "arg_position format argID =
     (case indexOf format 36 of
        Some argnumPos \<Rightarrow> map_option (\<lambda>n. n - 1) (parseInt (take argnumPos format))
      | None \<Rightarrow> Some argID)"

text \<open>\<open>v.slice(-1)\<close> of an element of the split array: \<open>undefined\<close> has no \<open>slice\<close>.\<close>

definition last_char :: "js_val \<Rightarrow> jsstring outcome" where
  "last_char v = (case v of JStr s \<Rightarrow> Returned (js_slice s (- 1) None) | _ \<Rightarrow> Threw TypeError)"

text \<open>
  The body of the first \<open>while\<close> loop, up to the new placeholder text and the two lists
  of positions. \<open>type\<close>, \<open>format\<close> and \<open>placeholderCount\<close> are \<open>const\<close>: the
  statements \<open>--placeholderCount\<close> and \<open>type = 'F'\<close> throw a TypeError. In the branch for
  \<open>i\<close> the new placeholder is the single-quoted string \<^verbatim>\<open>'\`%${format}s\`'\<close>, in which
  nothing is interpolated.
\<close>

definition rewrite_placeholder ::
  "bool \<Rightarrow> js_val list \<Rightarrow> nat \<Rightarrow> int \<Rightarrow> int option list \<Rightarrow> int option list
   \<Rightarrow> (jsstring \<times> int option list \<times> int option list) outcome" where
  "rewrite_placeholder allowUnsafe splitQuery key argID argIdentifiers argStrings =
     (case js_nth splitQuery key of
        JStr placeholder \<Rightarrow>
          (let format = js_slice placeholder 1 (Some (- 1));
               type = js_slice placeholder (- 1) None
           in if type = str ''f'' \<and> allowUnsafe then
                (case last_char (js_nth splitQuery (key - 1)) of
                   Returned l \<Rightarrow> Threw TypeError
                 | Threw e \<Rightarrow> Threw e
                 | Exited \<Rightarrow> Exited)
              else if type = str ''f'' then Threw TypeError
              else if type = str ''i'' then
                Returned (str ''`%${format}s`'',
                          argIdentifiers @ [arg_position format argID], argStrings)
              else if type \<noteq> str ''d'' \<and> type \<noteq> str ''F'' then
                (let argStrings' = argStrings @ [arg_position format argID];
                     quoted = [39, 37] @ format @ [115, 39]
                 in if \<not> allowUnsafe then Returned (quoted, argIdentifiers, argStrings')
                    else if format = [] then
                      (case last_char (js_nth splitQuery (key - 1)) of
                         Returned l \<Rightarrow>
                           if l \<noteq> str ''%''
                           then Returned (quoted, argIdentifiers, argStrings')
                           else Returned (placeholder, argIdentifiers, argStrings')
                       | Threw e \<Rightarrow> Threw e
                       | Exited \<Rightarrow> Exited)
                    else Returned (placeholder, argIdentifiers, argStrings'))
              else Returned (placeholder, argIdentifiers, argStrings))
      | _ \<Rightarrow> Threw TypeError)"

function prepare_loop ::
  "bool \<Rightarrow> js_val list \<Rightarrow> nat \<Rightarrow> int \<Rightarrow> jsstring \<Rightarrow> int option list \<Rightarrow> int option list
   \<Rightarrow> (nat \<times> jsstring \<times> int option list \<times> int option list) outcome" where
  "prepare_loop allowUnsafe splitQuery key argID newQuery argIdentifiers argStrings =
     (if key < length splitQuery then
        (case rewrite_placeholder allowUnsafe splitQuery key argID argIdentifiers argStrings of
           Returned (placeholder, ids, strs) \<Rightarrow>
             prepare_loop allowUnsafe splitQuery (key + 3) (argID + 1)
               (newQuery @ to_str (js_plus (js_plus (js_nth splitQuery (key - 2))
                                                    (js_nth splitQuery (key - 1)))
                                           (JStr placeholder)))
               ids strs
         | Threw e \<Rightarrow> Threw e
         | Exited \<Rightarrow> Exited)
      else Returned (key, newQuery, argIdentifiers, argStrings))"
  by pat_completeness auto
termination
  by (relation "measure (\<lambda>(u, sq, key, rest). length sq - key)") auto

text \<open>The loop that looks for the highest numbered placeholder.\<close>

function max_numbered :: "js_val list \<Rightarrow> nat \<Rightarrow> int \<Rightarrow> int outcome" where
  "max_numbered splitQuery i maxNumberedPlaceholder =
     (if i < length splitQuery then
        (case js_nth splitQuery i of
           JStr s \<Rightarrow>
             max_numbered splitQuery (i + 3)
               (case parseInt (js_slice s 1 None) of
                  Some argnum \<Rightarrow>
                    if maxNumberedPlaceholder < argnum then argnum else maxNumberedPlaceholder
                | None \<Rightarrow> maxNumberedPlaceholder)
         | _ \<Rightarrow> Threw TypeError)
      else Returned maxNumberedPlaceholder)"
  by pat_completeness auto
termination
  by (relation "measure (\<lambda>(sq, i, m). length sq - i)") auto

text \<open>
  \<open>args.forEach\<close>: an argument at an identifier position goes through
  \<open>escapeIdentifierValue\<close>, whose \<open>identifier.replace\<close> exists on strings only; a number
  is kept; any other value goes through \<open>realEscape\<close>, after a value that is neither a
  string nor \<open>null\<close> has been replaced by the empty string. The body of \<open>realEscape\<close> is
  cut off in the source after \<^verbatim>\<open>return data.replace(\<close>: on strings it is the parameter
  \<open>realEscape\<close>, and on \<open>null\<close> the call of \<open>replace\<close> throws.
\<close>

definition escape_arg ::
  "(jsstring \<Rightarrow> jsstring) \<Rightarrow> int option list \<Rightarrow> nat \<Rightarrow> js_val \<Rightarrow> js_val outcome \<times> warning list" where
  "escape_arg realEscape argIdentifiers i v =
     (if Some (int i) \<in> set argIdentifiers then
        (case v of JStr s \<Rightarrow> (Returned (JStr (escapeIdentifierValue s)), [])
                 | _ \<Rightarrow> (Threw TypeError, []))
      else
        (case v of
           JNum n \<Rightarrow> (Returned (JNum n), [])
         | JNaN \<Rightarrow> (Returned JNaN, [])
         | JStr s \<Rightarrow> (Returned (JStr (realEscape s)), [])
         | JNull \<Rightarrow> (Threw TypeError, [])
         | _ \<Rightarrow> (Returned (JStr (realEscape [])), [UnsupportedValueType])))"

fun escape_args ::
  "(jsstring \<Rightarrow> jsstring) \<Rightarrow> int option list \<Rightarrow> nat \<Rightarrow> js_val list
   \<Rightarrow> js_val list outcome \<times> warning list" where
  "escape_args realEscape argIdentifiers i [] = (Returned [], [])"
| "escape_args realEscape argIdentifiers i (v # vs) =
     (case escape_arg realEscape argIdentifiers i v of
        (Returned x, w) \<Rightarrow>
          (case escape_args realEscape argIdentifiers (Suc i) vs of
             (Returned xs, w') \<Rightarrow> (Returned (x # xs), w @ w')
           | (Threw e, w') \<Rightarrow> (Threw e, w @ w')
           | (Exited, w') \<Rightarrow> (Exited, w @ w'))
      | (Threw e, w) \<Rightarrow> (Threw e, w)
      | (Exited, w) \<Rightarrow> (Exited, w))"

text \<open>
  \<^verbatim>\<open>query.replace(/%(?!^\d+\$)/g, () => argsEscaped.shift() || '')\<close>: every match takes
  the next escaped argument, or the empty string when the value is falsy or the list
  is used up.
\<close>

fun shift_each :: "js_val list \<Rightarrow> (nat \<times> nat \<times> captures) list \<Rightarrow> (nat \<times> nat \<times> jsstring) list" where
  "shift_each argsEscaped [] = []"
| "shift_each argsEscaped ((q, e, c) # ms) =
     (q, e, or_empty (js_nth argsEscaped 0)) # shift_each (tl argsEscaped) ms"

definition substitute_args :: "js_val list \<Rightarrow> jsstring \<Rightarrow> jsstring" where
  "substitute_args argsEscaped query =
     rx_build query 0 (shift_each argsEscaped (rx_match_all query rx_percent_argnum 0))"

text \<open>
  The end of the method: the arguments are escaped, substituted for the percent signs
  that are left, and the result goes through \<open>addPlaceholderEscape\<close>.
\<close>

definition prepare_finish ::
  "(jsstring \<Rightarrow> jsstring) \<Rightarrow> jsstring \<Rightarrow> int option list \<Rightarrow> js_val list \<Rightarrow> jsstring
   \<Rightarrow> js_val outcome \<times> warning list" where
  "prepare_finish realEscape token argIdentifiers args query =
     (case escape_args realEscape argIdentifiers 0 args of
        (Returned argsEscaped, w) \<Rightarrow>
          (Returned (JStr (addPlaceholderEscape token (substitute_args argsEscaped query))), w)
      | (Threw e, w) \<Rightarrow> (Threw e, w)
      | (Exited, w) \<Rightarrow> (Exited, w))"

text \<open>
  \<^verbatim>\<open>if (!maxNumberedPlaceholder || argsCount < maxNumberedPlaceholder) return '';\<close>
\<close>

definition too_few_args :: "js_val list \<Rightarrow> nat \<Rightarrow> bool outcome" where
  "too_few_args splitQuery argsCount =
     (case max_numbered splitQuery 2 0 of
        Returned maxNumberedPlaceholder \<Rightarrow>
          Returned (maxNumberedPlaceholder = 0 \<or> int argsCount < maxNumberedPlaceholder)
      | Threw e \<Rightarrow> Threw e
      | Exited \<Rightarrow> Exited)"

text \<open>
  The check of the argument count. \<open>placeholderCount\<close> is
  \<open>(splitQueryCount - 1) / 3\<close>, a fraction in general.
\<close>

definition check_count ::
  "(jsstring \<Rightarrow> jsstring) \<Rightarrow> jsstring \<Rightarrow> js_val list \<Rightarrow> rat \<Rightarrow> bool \<Rightarrow> int option list
   \<Rightarrow> js_val list \<Rightarrow> jsstring \<Rightarrow> js_val outcome \<times> warning list" where
  "check_count realEscape token splitQuery placeholderCount passedAsArray argIdentifiers
     args query =
     (let argsCount = length args;
          finish = prepare_finish realEscape token argIdentifiers args query
      in if of_nat argsCount \<noteq> placeholderCount then
           (if placeholderCount = 1 \<and> passedAsArray then
              (Returned JNull, [OneExpectedArrayPassed])
            else if of_nat argsCount < placeholderCount then
              (case too_few_args splitQuery argsCount of
                 Returned True \<Rightarrow>
                   (Returned (JStr []), [WrongPlaceholderCount placeholderCount argsCount])
               | Returned False \<Rightarrow>
                   (fst finish, WrongPlaceholderCount placeholderCount argsCount # snd finish)
               | Threw e \<Rightarrow> (Threw e, [WrongPlaceholderCount placeholderCount argsCount])
               | Exited \<Rightarrow> (Exited, [WrongPlaceholderCount placeholderCount argsCount]))
            else (fst finish, WrongPlaceholderCount placeholderCount argsCount # snd finish))
         else finish)"

text \<open>
  The method. \<open>query\<close> is \<open>None\<close> for \<open>undefined\<close> or \<open>null\<close>;
  \<open>allowUnsafe\<close> is the field \<open>allowUnsafeUnquotedParameters\<close>. The split array has four
  entries for each placeholder (the text before it and three capture groups), while
  the loops step through it by three.

  When an argument position is used both ways, the second parse assigns to
  \<open>placeholder\<close>, a variable declared with \<open>let\<close> inside the block of the first loop: in
  the strict code of a class body that is a ReferenceError. (Were the loop not entered,
  \<open>usedPlaceholders[argPos].join\<close> would be called on \<open>undefined\<close>.)
\<close>

definition prepare ::
  "(jsstring \<Rightarrow> jsstring) \<Rightarrow> jsstring \<Rightarrow> bool \<Rightarrow> jsstring option \<Rightarrow> js_val list
   \<Rightarrow> js_val outcome \<times> warning list" where
  "prepare realEscape token allowUnsafe query_arg args_arg =
     (case query_arg of
        None \<Rightarrow> (Returned JUndefined, [])
      | Some query0 \<Rightarrow>
          if 37 \<notin> set query0 then (Returned (JStr query0), [MustHavePlaceholder])
          else
            (let query1 = replace_all rx_double_quoted [Lit [37], Cap 1, Lit [37]]
                            (replace_all rx_single_quoted [Lit [37], Cap 1, Lit [37]] query0);
                 query2 = replace_all rx_unescaped_percent [Lit [37, 37], Cap 1] query1;
                 splitQuery = js_split rx_split [1, 2, 3] query2;
                 splitQueryCount = length splitQuery;
                 placeholderCount = (of_int (int splitQueryCount - 1) :: rat) / 3;
                 passedAsArray = (case args_arg of [JArr xs] \<Rightarrow> True | _ \<Rightarrow> False);
                 args = (case args_arg of [JArr xs] \<Rightarrow> xs | _ \<Rightarrow> args_arg)
             in case prepare_loop allowUnsafe splitQuery 2 0 [] [] [] of
                  Returned (key, newQuery, argIdentifiers, argStrings) \<Rightarrow>
                    (let query = newQuery @ to_str (js_nth splitQuery (key - 2));
                         dualUse = filter (\<lambda>item. item \<in> set argStrings) argIdentifiers
                     in if dualUse \<noteq> [] then
                          (if 2 < splitQueryCount then (Threw ReferenceError, [CannotPrepareBoth])
                           else (Threw TypeError, [CannotPrepareBoth]))
                        else check_count realEscape token splitQuery placeholderCount
                               passedAsArray argIdentifiers args query)
                | Threw e \<Rightarrow> (Threw e, [])
                | Exited \<Rightarrow> (Exited, [])))"

section \<open>The backward-compatibility accessors\<close>

text \<open>
  The methods \<open>get\<close>, \<open>set\<close>, \<open>isset\<close> and \<open>unset\<close> read, write, test and delete a
  property of the instance by a name that the caller computes.
  \<^verbatim>\<open>
  set(name, value) {
    const protectedMembers = ['colMeta', 'tableCharset', 'checkCurrentQuery',
                              'allowUnsafeUnquotedParameters'];
    if (protectedMembers.includes(name)) { return; }
    this[name] = value;
  }
  unset(name) {
    delete this[name];
  }
  \<close>
  An object has its own fields and a prototype. An instance of the class inherits from
  the prototype of the class and through it from \<open>Object.prototype\<close>; a prototype that
  is an object (here an array) inherits from \<open>Object.prototype\<close> as well. The class
  defines no accessor property and freezes nothing, so the one inherited property with a
  setter is \<open>__proto__\<close> of \<open>Object.prototype\<close>; every other inherited property is a
  writable data property, which an assignment shadows by a field of the instance.
\<close>

datatype prototype = ClassPrototype | NullPrototype | ObjectPrototype js_val

record js_object =
  own :: "jsstring \<rightharpoonup> js_val"
  proto :: prototype

text \<open>
  The name is documented as a string, but nothing checks it. A name that is not a string
  is used as the property key it converts to: the array \<open>['colMeta']\<close> converts to the
  key \<open>colMeta\<close>. \<open>OtherName k\<close> is such a name, with its key.
\<close>

datatype prop_name = StringName jsstring | OtherName jsstring

fun property_key :: "prop_name \<Rightarrow> jsstring" where
  "property_key (StringName s) = s"
| "property_key (OtherName k) = k"

definition prop_name_of :: "js_val \<Rightarrow> prop_name" where
  "prop_name_of x = (case x of JStr s \<Rightarrow> StringName s | other \<Rightarrow> OtherName (to_str other))"

definition protectedMembers :: "jsstring list" where
  "protectedMembers =
     map str [''colMeta'', ''tableCharset'', ''checkCurrentQuery'',
              ''allowUnsafeUnquotedParameters'']"

text \<open>
  \<open>Array.prototype.includes\<close> compares with SameValueZero: a name that is not a string
  is equal to none of the strings of the array.
\<close>

fun includes_name :: "jsstring list \<Rightarrow> prop_name \<Rightarrow> bool" where
  "includes_name xs (StringName s) = (s \<in> set xs)"
| "includes_name xs (OtherName k) = False"

text \<open>
  \<open>this[key] = value\<close>. For the key \<open>__proto__\<close>, when the instance has no field of that
  name and its prototype is not \<open>null\<close>, the assignment runs the setter of
  \<open>Object.prototype\<close>: \<open>null\<close> or an object becomes the prototype, any other value is
  ignored, and no field is written. Every other assignment writes the field.
\<close>

definition inherits_proto_setter :: "js_object \<Rightarrow> bool" where
  "inherits_proto_setter this = (own this (str ''__proto__'') = None \<and> proto this \<noteq> NullPrototype)"

definition assign :: "jsstring \<Rightarrow> js_val \<Rightarrow> js_object \<Rightarrow> js_object" where
  "assign key v this =
     (if key = str ''__proto__'' \<and> inherits_proto_setter this then
        (case v of
           JNull \<Rightarrow> this\<lparr>proto := NullPrototype\<rparr>
         | JArr xs \<Rightarrow> this\<lparr>proto := ObjectPrototype (JArr xs)\<rparr>
         | other \<Rightarrow> this)
      else this\<lparr>own := (own this)(key \<mapsto> v)\<rparr>)"

definition set_prop :: "prop_name \<Rightarrow> js_val \<Rightarrow> js_object \<Rightarrow> js_object" where
  "set_prop name v this =
     (if includes_name protectedMembers name then this else assign (property_key name) v this)"

definition unset :: "prop_name \<Rightarrow> js_object \<Rightarrow> js_object" where
  "unset name this = this\<lparr>own := (own this)(property_key name := None)\<rparr>"

section \<open>Tenant table prefix\<close>

text \<open>
  \<^verbatim>\<open>
  getBlogPrefix(blogId = null) {
    if (process.env.IS_MULTISITE) {
      if (blogId === null) { blogId = this.blogId; }
      blogId = Number(blogId);
      if (process.env.MULTISITE && (blogId === 0 || blogId === 1)) {
        return this.basePrefix;
      } else {
        return `${this.basePrefix}${blogId}_`;
      }
    }
    return this.basePrefix;
  }
  \<close>
  The fields of the object that the operations below read or write.
\<close>

type_synonym connection = nat

text \<open>
  A row of \<open>SHOW FULL COLUMNS\<close>: the name of the column, its declared type and its
  collation, which is \<open>null\<close> for a column that is not text. A table's character set
  is a name or \<open>false\<close>.
\<close>

record column =
  Field :: jsstring
  Type :: jsstring
  Collation :: "jsstring option"

datatype charset = NoCharset | Charset jsstring

record wpdb =
  basePrefix :: jsstring
  prefix :: jsstring
  blogId :: int
  table_names :: "string \<rightharpoonup> jsstring"
  reconnectRetries :: int
  showErrors :: bool
  dbh :: "connection option"
  isMySQL :: bool
  error :: "string option"
  tableCharset :: "jsstring \<rightharpoonup> charset"
  colMeta :: "jsstring \<rightharpoonup> (jsstring \<times> column) list"
  insertId :: int
  lastError :: "jsstring list option"
  fieldTypes :: "jsstring \<rightharpoonup> jsstring"

text \<open>
  The field initialisers of the class. The table-name fields (\<open>this[table]\<close>, written
  by \<open>setPrefix\<close> and \<open>setBlogId\<close>) are the map \<open>table_names\<close>; \<open>dbh\<close> is \<open>null\<close> or
  a connection object; \<open>isMySQL\<close> starts as \<open>null\<close>, which is falsy. \<open>lastError\<close> is
  either the empty string (\<open>None\<close>) or the message of \<open>processFields\<close>, of which the
  list of the field names is kept.
\<close>

definition initial :: wpdb where
  "initial =
     \<lparr>basePrefix = [], prefix = [], blogId = 0, table_names = Map.empty,
      reconnectRetries = 5, showErrors = False, dbh = None, isMySQL = False,
      error = None, tableCharset = Map.empty, colMeta = Map.empty, insertId = 0,
      lastError = None, fieldTypes = Map.empty\<rparr>"

definition getBlogPrefix :: "process_env \<Rightarrow> wpdb \<Rightarrow> int option \<Rightarrow> jsstring" where
  "getBlogPrefix env this blogId_arg =
     (if env_truthy env ''IS_MULTISITE'' then
        (let blogId = (case blogId_arg of None \<Rightarrow> blogId this | Some b \<Rightarrow> b) in
         if env_truthy env ''MULTISITE'' \<and> (blogId = 0 \<or> blogId = 1)
         then basePrefix this
         else basePrefix this @ Number_toString blogId @ str ''_'')
      else basePrefix this)"

section \<open>Setting the table prefix\<close>

text \<open>
  \<^verbatim>\<open>
  setPrefix(prefix, setTableNames = true) {
    if (/[^a-z0-9_]/i.test(prefix)) { return new Error('Invalid database prefix'); }
    let oldPrefix = process.env.IS_MULTISITE ? '' : prefix;
    if (this.basePrefix) { oldPrefix = this.basePrefix; }
    this.basePrefix = prefix;
    if (setTableNames) {
      for (const [table, prefixedTable] of Object.entries(this.tables('global'))) {
        this[table] = prefixedTable;
      }
      if (process.env.IS_MULTISITE && !this.blogId) { return oldPrefix; }
      this.prefix = this.getBlogPrefix();
      for (... of Object.entries(this.tables('blog'))) { this[table] = prefixedTable; }
      for (... of Object.entries(this.tables('old'))) { this[table] = prefixedTable; }
    }
    return oldPrefix;
  }
  \<close>
  With the flag \<open>i\<close> a code unit matches a class when it equals a member up to case.
  The members here are ASCII, and case folding never maps a code unit from 128 on to an
  ASCII one, so only the ASCII letters have a second spelling.
\<close>

definition ignore_case :: "(nat \<Rightarrow> bool) \<Rightarrow> nat \<Rightarrow> bool" where
  "ignore_case P c =
     (P c \<or> (65 \<le> c \<and> c \<le> 90 \<and> P (c + 32)) \<or> (97 \<le> c \<and> c \<le> 122 \<and> P (c - 32)))"

definition rx_invalid_prefix :: regex where
  "rx_invalid_prefix =
     Cls (\<lambda>c. \<not> ignore_case (\<lambda>a. rng 97 122 a \<or> is_digit a \<or> a = 95) c)"

text \<open>\<open>RegExp.prototype.test\<close> of a regular expression without the flag \<open>g\<close>.\<close>

definition rx_test :: "regex \<Rightarrow> jsstring \<Rightarrow> bool" where
  "rx_test r s = (rx_exec s r 0 \<noteq> None)"

text \<open>
  The class declares \<open>tables\<close> twice: as a field (line 207, the list of the per-site
  tables) and as a method (line 773). The field is an own property of every instance
  and hides the method of the prototype, so \<open>this.tables('global')\<close> calls an array and
  throws a TypeError.
\<close>

definition tables_call :: "wpdb \<Rightarrow> string \<Rightarrow> (string \<times> jsstring) list outcome" where
  "tables_call this scope = Threw TypeError"

definition assign_tables :: "(string \<times> jsstring) list \<Rightarrow> wpdb \<Rightarrow> wpdb" where
  "assign_tables entries this =
     this\<lparr>table_names := fold (\<lambda>(table, prefixedTable) m. m(table \<mapsto> prefixedTable))
                              entries (table_names this)\<rparr>"

datatype prefix_result = InvalidPrefix | OldPrefix jsstring

definition setPrefix ::
  "process_env \<Rightarrow> jsstring \<Rightarrow> bool \<Rightarrow> wpdb \<Rightarrow> prefix_result outcome \<times> wpdb" where
  "setPrefix env prefix_arg setTableNames this =
     (if rx_test rx_invalid_prefix prefix_arg then (Returned InvalidPrefix, this)
      else
        (let oldPrefix = (if basePrefix this \<noteq> [] then basePrefix this
                          else if env_truthy env ''IS_MULTISITE'' then [] else prefix_arg);
             this1 = this\<lparr>basePrefix := prefix_arg\<rparr>
         in if setTableNames then
              (case tables_call this1 ''global'' of
                 Returned global \<Rightarrow>
                   (let this2 = assign_tables global this1
                    in if env_truthy env ''IS_MULTISITE'' \<and> blogId this2 = 0
                       then (Returned (OldPrefix oldPrefix), this2)
                       else
                         (let this3 = this2\<lparr>prefix := getBlogPrefix env this2 None\<rparr>
                          in case tables_call this3 ''blog'' of
                               Returned blog \<Rightarrow>
                                 (let this4 = assign_tables blog this3
                                  in case tables_call this4 ''old'' of
                                       Returned old \<Rightarrow>
                                         (Returned (OldPrefix oldPrefix), assign_tables old this4)
                                     | Threw e \<Rightarrow> (Threw e, this4)
                                     | Exited \<Rightarrow> (Exited, this4))
                             | Threw e \<Rightarrow> (Threw e, this3)
                             | Exited \<Rightarrow> (Exited, this3)))
               | Threw e \<Rightarrow> (Threw e, this1)
               | Exited \<Rightarrow> (Exited, this1))
            else (Returned (OldPrefix oldPrefix), this1)))"

text \<open>The code units that the class of \<open>setPrefix\<close> accepts.\<close>

definition prefix_char :: "nat \<Rightarrow> bool" where
  "prefix_char c = ((65 \<le> c \<and> c \<le> 90) \<or> (97 \<le> c \<and> c \<le> 122) \<or> (48 \<le> c \<and> c \<le> 57) \<or> c = 95)"

section \<open>Reconnecting\<close>

text \<open>
  The driver is outside the program. Each call of \<open>dbConnect\<close> meets one of three
  answers: \<open>createConnection\<close> rejects; \<open>createConnection\<close> resolves and
  \<open>this.dbh.connect\<close> rejects; or both resolve. The liveness probe
  \<open>this.dbh.query('DO 1')\<close> rejects or resolves to a result of some length. What
  \<open>checkConnection\<close> does is recorded as a list of events.
\<close>

datatype attempt = CreateRejects | ConnectRejects | Connects

datatype probe = ProbeRejects | ProbeAnswers nat

datatype event = Reconnect | Delay nat

text \<open>
  \<^verbatim>\<open>
  bail(message, errorCode = '500') {
    if (this.showErrors) {
      let error = this.dbh ? this.dbh.error
                : (this.dbh.connectionError ? this.dbh.connectionError : '');
      ... console.error ...
      process.exit(1);
    } else {
      this.error = WPError ? new WPError(errorCode, message) : message;
      return false;
    }
  }
  \<close>
  With \<open>dbh\<close> equal to \<open>null\<close> the read of \<open>this.dbh.connectionError\<close> throws.
\<close>

definition bail :: "string \<Rightarrow> wpdb \<Rightarrow> js_val outcome \<times> wpdb" where
  "bail errorCode this =
     (if showErrors this then
        (case dbh this of None \<Rightarrow> (Threw TypeError, this) | Some c \<Rightarrow> (Exited, this))
      else (Returned (JBool False), this\<lparr>error := Some errorCode\<rparr>))"

text \<open>
  \<^verbatim>\<open>
  async dbConnect(allowBail = true) {
    this.isMySQL = true;
    try { this.dbh = await createConnection({...}); }
    catch (error) {
      if (allowBail) { console.error(...); return false; }
      throw error;
    }
    ... parseDbHost ...
    try { await this.dbh.connect({...}); }
    catch (error) {
      this.dbh = null;
      if (allowBail) {
        if (process.env.WP_CONTENT_DIR && fs.existsSync(...)) { require(...); process.exit(1); }
        this.bail(message, 'db_connect_fail');
        return false;
      } else if (this.dbh) { ...; return true; }
      return false;
    }
  }
  \<close>
  The branch \<open>else if (this.dbh)\<close> follows \<open>this.dbh = null\<close> and is never taken. When
  both calls resolve the function ends without a \<open>return\<close>: the value is
  \<open>undefined\<close>. \<open>error_page\<close> says whether the file \<open>db-error.php\<close> exists; \<open>conn\<close> is the
  connection object that \<open>createConnection\<close> resolves to.
\<close>

definition dbConnect ::
  "bool \<Rightarrow> process_env \<Rightarrow> bool \<Rightarrow> attempt \<Rightarrow> connection \<Rightarrow> wpdb \<Rightarrow> js_val outcome \<times> wpdb" where
  "dbConnect allowBail env error_page att conn this =
     (let this1 = this\<lparr>isMySQL := True\<rparr>
      in case att of
           CreateRejects \<Rightarrow>
             if allowBail then (Returned (JBool False), this1) else (Threw DriverError, this1)
         | ConnectRejects \<Rightarrow>
             (let this2 = this1\<lparr>dbh := None\<rparr>
              in if allowBail then
                   (if env_truthy env ''WP_CONTENT_DIR'' \<and> error_page then (Exited, this2)
                    else (case bail ''db_connect_fail'' this2 of
                            (Returned v, this3) \<Rightarrow> (Returned (JBool False), this3)
                          | (Threw e, this3) \<Rightarrow> (Threw e, this3)
                          | (Exited, this3) \<Rightarrow> (Exited, this3)))
                 else (Returned (JBool False), this2))
         | Connects \<Rightarrow> (Returned JUndefined, this1\<lparr>dbh := Some conn\<rparr>))"

text \<open>
  \<^verbatim>\<open>
  async checkConnection(allowBail = true) {
    if (this.dbh && (await this.dbh.query('DO 1')).length > 0) { return true; }
    if (process.env.WP_DEBUG) {
      const originalErrorReporting = process.env.ERROR_REPORTING;
      process.env.ERROR_REPORTING = originalErrorReporting & ~console.error;
    }
    for (let tries = 1; tries <= this.reconnectRetries; tries++) {
      if (this.reconnectRetries === tries && process.env.WP_DEBUG) {
        process.env.ERROR_REPORTING = originalErrorReporting;
      }
      if (await this.dbConnect(false)) {
        if (originalErrorReporting) { process.env.ERROR_REPORTING = originalErrorReporting; }
        return true;
      }
      await new Promise(resolve => setTimeout(resolve, 1000));
    }
    if (process.env.TEMPLATE_REDIRECT) { return false; }
    if (!allowBail) { return false; }
    ... this.bail(message, 'db_connect_fail');
    console.error('Database is not available.');
  }
  \<close>
  \<open>originalErrorReporting\<close> is a \<open>const\<close> of the block of the first \<open>if\<close>; the two
  reads of it inside the loop are outside that block and throw a ReferenceError. The
  variable \<open>ERROR_REPORTING\<close> is written and never read, and is left out.
\<close>

function reconnect_loop ::
  "process_env \<Rightarrow> bool \<Rightarrow> (nat \<Rightarrow> attempt) \<Rightarrow> int \<Rightarrow> wpdb \<Rightarrow> event list
   \<Rightarrow> unit outcome \<times> wpdb \<times> event list" where
  "reconnect_loop env error_page attempts tries this trace =
     (if tries \<le> reconnectRetries this then
        (if reconnectRetries this = tries \<and> env_truthy env ''WP_DEBUG''
         then (Threw ReferenceError, this, trace)
         else
           (case dbConnect False env error_page (attempts (nat (tries - 1))) (nat tries) this of
              (Returned v, this') \<Rightarrow>
                if js_truthy v then (Threw ReferenceError, this', trace @ [Reconnect])
                else reconnect_loop env error_page attempts (tries + 1) this'
                       (trace @ [Reconnect, Delay 1000])
            | (Threw e, this') \<Rightarrow> (Threw e, this', trace @ [Reconnect])
            | (Exited, this') \<Rightarrow> (Exited, this', trace @ [Reconnect])))
      else (Returned (), this, trace))"
  by pat_completeness auto
termination
  by (relation "measure (\<lambda>(env, ep, attempts, tries, this, trace).
                  nat (reconnectRetries this + 1 - tries))")
     (auto simp: dbConnect_def bail_def Let_def split: attempt.splits if_splits)

definition checkConnection ::
  "bool \<Rightarrow> process_env \<Rightarrow> bool \<Rightarrow> probe \<Rightarrow> (nat \<Rightarrow> attempt) \<Rightarrow> wpdb
   \<Rightarrow> js_val outcome \<times> wpdb \<times> event list" where
  "checkConnection allowBail env error_page probe_answer attempts this =
     (case (case dbh this of
              None \<Rightarrow> Returned False
            | Some c \<Rightarrow> (case probe_answer of
                           ProbeRejects \<Rightarrow> Threw DriverError
                         | ProbeAnswers n \<Rightarrow> Returned (0 < n))) of
        Returned True \<Rightarrow> (Returned (JBool True), this, [])
      | Returned False \<Rightarrow>
          (case reconnect_loop env error_page attempts 1 this [] of
             (Returned u, this', trace) \<Rightarrow>
               if env_truthy env ''TEMPLATE_REDIRECT'' then (Returned (JBool False), this', trace)
               else if \<not> allowBail then (Returned (JBool False), this', trace)
               else (case bail ''db_connect_fail'' this' of
                       (Returned v, this'') \<Rightarrow> (Returned JUndefined, this'', trace)
                     | (Threw e, this'') \<Rightarrow> (Threw e, this'', trace)
                     | (Exited, this'') \<Rightarrow> (Exited, this'', trace))
           | (Threw e, this', trace) \<Rightarrow> (Threw e, this', trace)
           | (Exited, this', trace) \<Rightarrow> (Exited, this', trace))
      | Threw e \<Rightarrow> (Threw e, this, [])
      | Exited \<Rightarrow> (Exited, this, []))"

section \<open>The character set of a table\<close>

text \<open>
  \<open>toLowerCase\<close> and \<open>toUpperCase\<close>, on the ASCII letters: the names of tables,
  columns, types and collations are ASCII.
\<close>

definition toLowerCase :: "jsstring \<Rightarrow> jsstring" where
  "toLowerCase s = map (\<lambda>c. if 65 \<le> c \<and> c \<le> 90 then c + 32 else c) s"

definition toUpperCase :: "jsstring \<Rightarrow> jsstring" where
  "toUpperCase s = map (\<lambda>c. if 97 \<le> c \<and> c \<le> 122 then c - 32 else c) s"

text \<open>
  \<open>getResults\<close> is declared \<open>async\<close>: the caller receives a promise, here the promise
  of the rows that the server returns. \<open>getTableCharset\<close> is not \<open>async\<close> and does not
  wait for it. A promise is truthy and is not iterable.
\<close>

datatype 'a fetched = Promise "'a list" | Rows "'a list" | Missing

definition getResults :: "'a list \<Rightarrow> 'a fetched" where
  "getResults server_rows = Promise server_rows"

fun fetched_truthy :: "'a fetched \<Rightarrow> bool" where
  "fetched_truthy (Promise rows) = True"
| "fetched_truthy (Rows rows) = True"
| "fetched_truthy Missing = False"

fun for_of :: "'a fetched \<Rightarrow> 'a list outcome" where
  "for_of (Rows rows) = Returned rows"
| "for_of (Promise rows) = Threw TypeError"
| "for_of Missing = Threw TypeError"

text \<open>
  An object used as a dictionary keeps its keys in the order of their first assignment;
  a \<open>Set\<close> keeps its members in the order of insertion. (Keys that are canonical
  numbers would be listed first; the result below does not depend on the order.)
\<close>

fun obj_set :: "'k \<Rightarrow> 'v \<Rightarrow> ('k \<times> 'v) list \<Rightarrow> ('k \<times> 'v) list" where
  "obj_set k v [] = [(k, v)]"
| "obj_set k v (p # ps) = (if fst p = k then (k, v) # ps else p # obj_set k v ps)"

definition set_add :: "'a \<Rightarrow> 'a list \<Rightarrow> 'a list" where
  "set_add x xs = (if x \<in> set xs then xs else xs @ [x])"

definition set_delete :: "'a \<Rightarrow> 'a list \<Rightarrow> 'a list" where
  "set_delete x xs = filter (\<lambda>y. y \<noteq> x) xs"

text \<open>
  \<^verbatim>\<open>
  for (const column of Object.values(columns)) {
    if (column.Collation) {
      const [charset] = column.Collation.split('_');
      charsets.add(charset.toLowerCase());
    }
    const [type] = column.Type.split('(');
    if (['BINARY', 'VARBINARY', 'TINYBLOB', 'MEDIUMBLOB', 'BLOB', 'LONGBLOB']
          .includes(type.toUpperCase())) {
      this.tableCharset[tableKey] = 'binary';
      return 'binary';
    }
  }
  \<close>
  \<open>None\<close> is the early return.
\<close>

definition binary_types :: "jsstring list" where
  "binary_types =
     [str ''BINARY'', str ''VARBINARY'', str ''TINYBLOB'', str ''MEDIUMBLOB'', str ''BLOB'',
      str ''LONGBLOB'']"

definition is_binary_column :: "column \<Rightarrow> bool" where
  "is_binary_column col = (toUpperCase (takeWhile (\<lambda>c. c \<noteq> 40) (Type col)) \<in> set binary_types)"

definition collation_charset :: "column \<Rightarrow> jsstring option" where
  "collation_charset col =
     (case Collation col of
        None \<Rightarrow> None
      | Some collation \<Rightarrow>
          if collation = [] then None
          else Some (toLowerCase (takeWhile (\<lambda>c. c \<noteq> 95) collation)))"

fun scan_columns :: "column list \<Rightarrow> jsstring list \<Rightarrow> jsstring list option" where
  "scan_columns [] charsets = Some charsets"
| "scan_columns (col # cols) charsets =
     (let charsets' = (case collation_charset col of
                         None \<Rightarrow> charsets
                       | Some cs \<Rightarrow> set_add cs charsets)
      in if is_binary_column col then None else scan_columns cols charsets')"

text \<open>
  \<^verbatim>\<open>
  if (charsets.has('utf8mb3')) { charsets.add('utf8'); charsets.delete('utf8mb3'); }
  const count = charsets.size;
  if (count === 1) { charset = [...charsets][0]; }
  else if (count === 0) { charset = false; }
  else {
    charsets.delete('latin1');
    const newCount = charsets.size;
    if (newCount === 1) { charset = [...charsets][0]; }
    else if (newCount === 2 && charsets.has('utf8') && charsets.has('utf8mb4')) {
      charset = 'utf8';
    } else { charset = 'ascii'; }
  }
  \<close>
\<close>

definition fold_utf8mb3 :: "jsstring list \<Rightarrow> jsstring list" where
  "fold_utf8mb3 charsets =
     (if str ''utf8mb3'' \<in> set charsets
      then set_delete (str ''utf8mb3'') (set_add (str ''utf8'') charsets)
      else charsets)"

definition resolve_charset :: "jsstring list \<Rightarrow> charset" where
  "resolve_charset charsets =
     (let count = length charsets
      in if count = 1 then Charset (hd charsets)
         else if count = 0 then NoCharset
         else
           (let charsets' = set_delete (str ''latin1'') charsets;
                newCount = length charsets'
            in if newCount = 1 then Charset (hd charsets')
               else if newCount = 2 \<and> str ''utf8'' \<in> set charsets'
                       \<and> str ''utf8mb4'' \<in> set charsets'
               then Charset (str ''utf8'')
               else Charset (str ''ascii'')))"

text \<open>
  What follows the \<open>for ... of\<close> over the rows, were the rows at hand: the columns are
  stored under the lower-cased table name, and so is the character set.
\<close>

definition charset_from_rows :: "jsstring \<Rightarrow> column list \<Rightarrow> wpdb \<Rightarrow> charset \<times> wpdb" where
  "charset_from_rows tableKey rows this =
     (let columns = fold (\<lambda>column cols. obj_set (toLowerCase (Field column)) column cols) rows [];
          this1 = this\<lparr>colMeta := (colMeta this)(tableKey \<mapsto> columns)\<rparr>;
          charset = (case scan_columns (map snd columns) [] of
                       None \<Rightarrow> Charset (str ''binary'')
                     | Some charsets \<Rightarrow> resolve_charset (fold_utf8mb3 charsets))
      in (charset, this1\<lparr>tableCharset := (tableCharset this1)(tableKey \<mapsto> charset)\<rparr>))"

text \<open>
  \<^verbatim>\<open>
  getTableCharset(table) {
    const tableKey = table.toLowerCase();
    let charset = null;
    if (charset !== null) { return charset; }
    if (this.tableCharset[tableKey]) { return this.tableCharset[tableKey]; }
    const charsets = new Set();
    const columns = {};
    ...
    const results = this.getResults(`SHOW FULL COLUMNS FROM ${formattedTable}`);
    if (!results) { return new Error('Could not retrieve table charset.'); }
    for (const column of results) {
      const field = column.Field.toLowerCase();
      columns[field] = column;
    }
    this.colMeta[tableKey] = columns;
    ...
  }
  \<close>
  A cached value is returned when it is truthy: a name that is not empty.
  \<open>server_rows\<close> are the rows that the server has for the table.
\<close>

datatype charset_result = Found charset | CharsetError

definition cached_charset :: "wpdb \<Rightarrow> jsstring \<Rightarrow> charset option" where
  "cached_charset this tableKey =
     (case tableCharset this tableKey of
        Some (Charset cs) \<Rightarrow> if cs \<noteq> [] then Some (Charset cs) else None
      | _ \<Rightarrow> None)"

definition getTableCharset ::
  "jsstring \<Rightarrow> column list \<Rightarrow> wpdb \<Rightarrow> charset_result outcome \<times> wpdb" where
  "getTableCharset table server_rows this =
     (let tableKey = toLowerCase table
      in case cached_charset this tableKey of
           Some cached \<Rightarrow> (Returned (Found cached), this)
         | None \<Rightarrow>
             (let results = getResults server_rows
              in if \<not> fetched_truthy results then (Returned CharsetError, this)
                 else (case for_of results of
                         Returned rows \<Rightarrow>
                           (let (charset, this') = charset_from_rows tableKey rows this
                            in (Returned (Found charset), this'))
                       | Threw e \<Rightarrow> (Threw e, this)
                       | Exited \<Rightarrow> (Exited, this))))"

section \<open>Insert, update and delete\<close>

text \<open>
  A column map is an object; \<open>update\<close> and \<open>delete\<close> test their maps with
  \<open>Array.isArray\<close>. \<open>Object.entries\<close> of an array pairs each element with its index.
\<close>

datatype js_data = Object "(jsstring \<times> js_val) list" | ArrayData "js_val list"

fun is_array :: "js_data \<Rightarrow> bool" where
  "is_array (ArrayData xs) = True"
| "is_array (Object kvs) = False"

fun entries :: "js_data \<Rightarrow> (jsstring \<times> js_val) list" where
  "entries (Object kvs) = kvs"
| "entries (ArrayData xs) = zip (map (\<lambda>k. Number_toString (int k)) [0 ..< length xs]) xs"

text \<open>
  \<^verbatim>\<open>
  processFieldFormats(data, format) {
    const formats = Array.isArray(format) ? format : [];
    const originalFormats = [...formats];
    Object.entries(data).forEach(([field, value]) => {
      const formattedValue = { value, format: '%s' };
      if (format) { formattedValue.format = formats.shift() || originalFormats[0]; }
      else if (this.fieldTypes[field]) { formattedValue.format = this.fieldTypes[field]; }
      data[field] = formattedValue;
    });
    return data;
  }
  \<close>
  A format is a string or \<open>undefined\<close> (\<open>None\<close>).
\<close>

datatype format_arg = FormatNull | FormatString jsstring | FormatArray "jsstring list"

fun format_truthy :: "format_arg \<Rightarrow> bool" where
  "format_truthy FormatNull = False"
| "format_truthy (FormatString f) = (f \<noteq> [])"
| "format_truthy (FormatArray fs) = True"

fun format_list :: "format_arg \<Rightarrow> jsstring list" where
  "format_list (FormatArray fs) = fs"
| "format_list f = []"

definition first_truthy :: "jsstring list \<Rightarrow> jsstring list \<Rightarrow> jsstring option" where
  "first_truthy formats originalFormats =
     (if formats \<noteq> [] \<and> hd formats \<noteq> [] then Some (hd formats)
      else if originalFormats \<noteq> [] then Some (hd originalFormats) else None)"

fun format_fields ::
  "(jsstring \<rightharpoonup> jsstring) \<Rightarrow> format_arg \<Rightarrow> jsstring list \<Rightarrow> jsstring list
   \<Rightarrow> (jsstring \<times> js_val) list \<Rightarrow> (jsstring \<times> js_val \<times> jsstring option) list" where
  "format_fields types format formats originalFormats [] = []"
| "format_fields types format formats originalFormats ((field, v) # rest) =
     (field, v,
      (if format_truthy format then first_truthy formats originalFormats
       else (case types field of
               Some t \<Rightarrow> if t \<noteq> [] then Some t else Some (str ''%s'')
             | None \<Rightarrow> Some (str ''%s''))))
     # format_fields types format (tl formats) originalFormats rest"

definition processFieldFormats ::
  "wpdb \<Rightarrow> js_data \<Rightarrow> format_arg \<Rightarrow> (jsstring \<times> js_val \<times> jsstring option) list" where
  "processFieldFormats this data format =
     format_fields (fieldTypes this) format (format_list format) (format_list format)
       (entries data)"

text \<open>
  \<^verbatim>\<open>
  getColCharset(table, column) {
    const tableKey = table.toLowerCase();
    const columnKey = column.toLowerCase();
    charset = applyFilters('pre_get_col_charset', null, table, column);
    ...
    const [charset] = this.colMeta[tableKey][columnKey].Collation.split('_');
    return charset;
  }
  \<close>
  The module neither declares nor imports \<open>applyFilters\<close>, and \<open>charset\<close> is a \<open>const\<close>
  that the last statement of the body declares: the third statement throws a
  ReferenceError, whatever the arguments.
\<close>

definition getColCharset :: "wpdb \<Rightarrow> jsstring \<Rightarrow> jsstring \<Rightarrow> charset_result outcome" where
  "getColCharset this table col = Threw ReferenceError"

text \<open>
  \<^verbatim>\<open>
  processFieldCharsets(data, table) {
    Object.entries(data).forEach(([field, value]) => {
      if (value.format === '%d' || value.format === '%f') { value.charset = false; }
      else {
        value.charset = this.getColCharset(table, field);
        if (value.charset instanceof Error) { throw new Error('Charset error'); }
      }
      data[field] = value;
    });
    return data;
  }
  \<close>
  \<open>processFieldLengths\<close> has the same shape, with \<open>getColLength\<close>, which is \<open>async\<close> and
  hands back a promise that is not an \<open>Error\<close>.
\<close>

definition numeric_format :: "jsstring option \<Rightarrow> bool" where
  "numeric_format f = (f = Some (str ''%d'') \<or> f = Some (str ''%f''))"

fun processFieldCharsets ::
  "wpdb \<Rightarrow> jsstring \<Rightarrow> (jsstring \<times> js_val \<times> jsstring option) list \<Rightarrow> unit outcome" where
  "processFieldCharsets this table [] = Returned ()"
| "processFieldCharsets this table ((field, v, f) # rest) =
     (if numeric_format f then processFieldCharsets this table rest
      else (case getColCharset this table field of
              Returned (Found cs) \<Rightarrow> processFieldCharsets this table rest
            | Returned CharsetError \<Rightarrow> Threw PlainError
            | Threw e \<Rightarrow> Threw e
            | Exited \<Rightarrow> Exited))"

text \<open>
  \<^verbatim>\<open>
  processFields(table, data, format) {
    data = this.processFieldFormats(data, format);
    if (data === false) { return false; }
    data = this.processFieldCharsets(data, table);
    if (data === false) { return false; }
    data = this.processFieldLengths(data, table);
    if (data === false) { return false; }
    const convertedData = this.stripInvalidText(data);
    if (data !== convertedData) {
      const problemFields = [];
      Object.entries(data).forEach(([field, value]) => {
        if (value !== convertedData[field]) { problemFields.push(field); }
      });
      ... this.lastError = `... ${problemFields.join(', ')} ...`;
    }
  }
  \<close>
  None of the three helpers returns \<open>false\<close>. \<open>stripInvalidText\<close> is \<open>async\<close>: what comes
  back is a promise, which differs from \<open>data\<close> and has none of its fields, so every
  field is reported in \<open>lastError\<close>. The body ends without a \<open>return\<close>: the result is
  \<open>undefined\<close>, never the processed data.
\<close>

datatype processed = ProcessedFalse | ProcessedUndefined

definition processFields ::
  "jsstring \<Rightarrow> js_data \<Rightarrow> format_arg \<Rightarrow> wpdb \<Rightarrow> processed outcome \<times> wpdb" where
  "processFields table data format this =
     (let fields = processFieldFormats this data format
      in case processFieldCharsets this table fields of
           Returned u \<Rightarrow> (Returned ProcessedUndefined, this\<lparr>lastError := Some (map fst fields)\<rparr>)
         | Threw e \<Rightarrow> (Threw e, this)
         | Exited \<Rightarrow> (Exited, this))"

text \<open>
  \<^verbatim>\<open>
  async _insertReplaceHelper(table, data, format = null, type = 'INSERT') {
    this.insertId = 0;
    if (!['REPLACE', 'INSERT'].includes(type.toUpperCase())) { return false; }
    const processedData = this.processFields(table, data, format);
    if (processedData === false) { return false; }
    const formats = [];
    const values = [];
    for (const value of processedData) {
      if (value.value === null) { formats.push('NULL'); continue; }
      formats.push(value.format);
      values.push(value.value);
    }
    ...
    const sql = `${type} INTO ${table} (${fields}) VALUES (${formatString})`;
    this.checkCurrentQuery = false;
    return this.query(this.prepare(sql, values));
  }
  \<close>
  The loop iterates over \<open>undefined\<close>, a TypeError; the statements that build and send
  the SQL text are never reached. The third component of the result lists the SQL
  statements handed to \<open>this.query\<close>.
\<close>

definition insertReplaceHelper ::
  "jsstring \<Rightarrow> js_data \<Rightarrow> format_arg \<Rightarrow> jsstring \<Rightarrow> wpdb
   \<Rightarrow> js_val outcome \<times> wpdb \<times> jsstring list" where
  "insertReplaceHelper table data format type this =
     (let this1 = this\<lparr>insertId := 0\<rparr>
      in if toUpperCase type \<notin> {str ''REPLACE'', str ''INSERT''}
         then (Returned (JBool False), this1, [])
         else (case processFields table data format this1 of
                 (Returned ProcessedFalse, this2) \<Rightarrow> (Returned (JBool False), this2, [])
               | (Returned ProcessedUndefined, this2) \<Rightarrow> (Threw TypeError, this2, [])
               | (Threw e, this2) \<Rightarrow> (Threw e, this2, [])
               | (Exited, this2) \<Rightarrow> (Exited, this2, [])))"

definition insert_row ::
  "jsstring \<Rightarrow> js_data \<Rightarrow> format_arg \<Rightarrow> wpdb \<Rightarrow> js_val outcome \<times> wpdb \<times> jsstring list" where
  "insert_row table data format this = insertReplaceHelper table data format (str ''INSERT'') this"

text \<open>
  \<^verbatim>\<open>
  async update(table, data, where, format = null, whereFormat = null) {
    if (!Array.isArray(data) || !Array.isArray(where)) { return false; }
    const processedData = this.processFields(table, data, format);
    if (processedData === false) { return false; }
    const processedWhere = this.processFields(table, where, whereFormat);
    if (processedWhere === false) { return false; }
    ...
    for (const [field, value] of Object.entries(processedData)) {
      if (value.value === null) { fields.push(`\`${field}\` = NULL`); continue; }
      ...
  }
  async delete(table, where, whereFormat = null) {
    if (!Array.isArray(where)) { return false; }
    const processedWhere = this.processFields(table, where, whereFormat);
    if (processedWhere === false) { return false; }
    ...
    for (const [field, value] of Object.entries(processedWhere)) { ... }
  }
  \<close>
  \<open>Object.entries(undefined)\<close> throws a TypeError.
\<close>

definition update_row ::
  "jsstring \<Rightarrow> js_data \<Rightarrow> js_data \<Rightarrow> format_arg \<Rightarrow> format_arg \<Rightarrow> wpdb
   \<Rightarrow> js_val outcome \<times> wpdb \<times> jsstring list" where
  "update_row table data where_arg format whereFormat this =
     (if \<not> is_array data \<or> \<not> is_array where_arg then (Returned (JBool False), this, [])
      else (case processFields table data format this of
              (Returned ProcessedFalse, this1) \<Rightarrow> (Returned (JBool False), this1, [])
            | (Returned ProcessedUndefined, this1) \<Rightarrow>
                (case processFields table where_arg whereFormat this1 of
                   (Returned ProcessedFalse, this2) \<Rightarrow> (Returned (JBool False), this2, [])
                 | (Returned ProcessedUndefined, this2) \<Rightarrow> (Threw TypeError, this2, [])
                 | (Threw e, this2) \<Rightarrow> (Threw e, this2, [])
                 | (Exited, this2) \<Rightarrow> (Exited, this2, []))
            | (Threw e, this1) \<Rightarrow> (Threw e, this1, [])
            | (Exited, this1) \<Rightarrow> (Exited, this1, [])))"

definition delete_row ::
  "jsstring \<Rightarrow> js_data \<Rightarrow> format_arg \<Rightarrow> wpdb \<Rightarrow> js_val outcome \<times> wpdb \<times> jsstring list" where
  "delete_row table where_arg whereFormat this =
     (if \<not> is_array where_arg then (Returned (JBool False), this, [])
      else (case processFields table where_arg whereFormat this of
              (Returned ProcessedFalse, this1) \<Rightarrow> (Returned (JBool False), this1, [])
            | (Returned ProcessedUndefined, this1) \<Rightarrow> (Threw TypeError, this1, [])
            | (Threw e, this1) \<Rightarrow> (Threw e, this1, [])
            | (Exited, this1) \<Rightarrow> (Exited, this1, [])))"

section \<open>Stripping invalid text\<close>

text \<open>
  An element of the array handed to \<open>stripInvalidText\<close>: the value, the character set
  of its column, the length of the column (\<open>false\<close>, or an object with a type, \<open>char\<close>
  or \<open>byte\<close>, and a length that is a number or \<open>false\<close>), the optional flag \<open>ascii\<close>,
  and the mark \<open>db\<close> that the function sets.
\<close>

datatype col_length = NoLength | Length jsstring "nat option"

record text_value =
  val :: js_val
  cs :: charset
  len :: col_length
  ascii :: "bool option"
  db :: bool















section \<open>Well-formed text\<close>




text \<open>
  When the code units of a string are bytes, the string is valid if it is made of the
  well-formed UTF-8 byte sequences of the Unicode standard (table 3-7), the four-byte
  ones only when \<open>mb4\<close> holds: each of them is one to four bytes long.
\<close>

definition cont_unit :: "nat \<Rightarrow> bool" where
  "cont_unit b = (128 \<le> b \<and> b \<le> 191)"

fun utf8_seq :: "bool \<Rightarrow> jsstring \<Rightarrow> bool" where
  "utf8_seq mb4 [a] = (a < 128)"
| "utf8_seq mb4 [a, b] = (194 \<le> a \<and> a \<le> 223 \<and> cont_unit b)"
| "utf8_seq mb4 [a, b, c] =
     (((a = 224 \<and> 160 \<le> b \<and> b \<le> 191) \<or> (225 \<le> a \<and> a \<le> 236 \<and> cont_unit b)
       \<or> (a = 237 \<and> 128 \<le> b \<and> b \<le> 159) \<or> (238 \<le> a \<and> a \<le> 239 \<and> cont_unit b))
      \<and> cont_unit c)"
| "utf8_seq mb4 [a, b, c, d] =
     (mb4 \<and> ((a = 240 \<and> 144 \<le> b \<and> b \<le> 191) \<or> (241 \<le> a \<and> a \<le> 243 \<and> cont_unit b)
             \<or> (a = 244 \<and> 128 \<le> b \<and> b \<le> 143))
      \<and> cont_unit c \<and> cont_unit d)"
| "utf8_seq mb4 w = False"

function valid_utf8 :: "bool \<Rightarrow> jsstring \<Rightarrow> bool" where
  "valid_utf8 mb4 s =
     (if s = [] then True
      else \<exists>n \<in> {1, 2, 3, 4}. utf8_seq mb4 (take n s) \<and> valid_utf8 mb4 (drop n s))"
  by pat_completeness auto
termination
  by (relation "measure (\<lambda>(mb4, s). length s)") auto




section \<open>Properties\<close>

subsection \<open>Evaluation\<close>

text \<open>The definitions that the simplifier unfolds to run the model on a concrete input.\<close>

text \<open>
  The loops are unconditional equations of a function in terms of itself; they are
  unfolded only where a proof asks for them.
\<close>

declare rx_match.simps [simp del] rx_exec.simps [simp del] rx_match_all.simps [simp del]
  js_split_loop.simps [simp del]
  prepare_loop.simps [simp del] max_numbered.simps [simp del] dec_digits.simps [simp del]
  reconnect_loop.simps [simp del] valid_utf8.simps [simp del]

lemmas rx_defs =
  rx_match.simps rx_exec.simps rx_match_all.simps js_split_loop.simps
  allowedFormat_def rx_split_def rx_unescaped_percent_def rx_single_quoted_def
  rx_double_quoted_def rx_percent_argnum_def rx_percent_def rx_backtick_def
  Opt_def Star_def Plus_def chr_def rng_def dot_def line_terminator_def sign_or_digit_def
  is_digit_def conversion_def progress_def reset_def no_caps_def rx_at_def

lemmas prepare_defs =
  prepare_loop.simps max_numbered.simps dec_digits.simps
  prepare_def check_count_def too_few_args_def prepare_finish_def substitute_args_def
  escape_arg_def rewrite_placeholder_def last_char_def arg_position_def
  addPlaceholderEscape_def escapeIdentifierValue_def js_split_def replace_all_def
  js_nth_def js_plus_def js_slice_def slice_index_def parseInt_def js_whitespace_def
  or_empty_def cap_val_def Number_toString_def str_def Let_def

subsection \<open>The placeholder compiler\<close>

text \<open>
  C1. The example of the specification,
  \<open>prepare("SELECT * FROM t WHERE id = %d AND name = %s", 5, "O'Brien")\<close>, with the
  default \<open>allowUnsafeUnquotedParameters = true\<close>: the method does not return the
  string \<open>SELECT * FROM t WHERE id = 5 AND name = 'O''Brien'\<close>. The split array is
  \<open>["SELECT * FROM t WHERE id =", " ", "%d", undefined, " AND name =", " ", "%s",
  undefined, ""]\<close>; the loop reads it at 2, 5 and 8, and at 8 it calls
  \<open>splitQuery[7].slice(-1)\<close> on \<open>undefined\<close>, which throws a TypeError.
\<close>

theorem prepare_example_throws:
  "prepare realEscape token True
     (Some (str ''SELECT * FROM t WHERE id = %d AND name = %s''))
     [JNum 5, JStr (str ''O'Brien'')]
   = (Threw TypeError, [])"
  by (simp add: prepare_defs rx_defs)

text \<open>
  C2. A template that uses one argument both as an identifier and as a value is not
  rejected with a diagnostic that lists the conflicts. For \<open>%1$i %1$s\<close> the conflict
  goes unnoticed (the second placeholder is never read as one) and text is returned;
  for \<open>%1$i %2$d %3$d %1$s\<close> the conflict is noticed, one warning is printed, and the
  second parse throws a ReferenceError before the conflicts are listed.
\<close>

theorem prepare_dual_role_not_rejected:
  "prepare realEscape token True (Some (str ''%1$i %1$s'')) [JStr (str ''x'')]
   = (Returned (JStr (str ''`x${format}s`1$'s'1$s1$'s'undefined'')),
      [WrongPlaceholderCount (8 / 3) 1])
   \<and> prepare realEscape token True (Some (str ''%1$i %2$d %3$d %1$s''))
       [JStr (str ''x''), JNum 1, JNum 2]
     = (Threw ReferenceError, [CannotPrepareBoth])"
  by (simp add: prepare_defs rx_defs)

text \<open>
  C3. With fewer arguments than placeholders the result is not the empty string exactly
  when the highest numbered placeholder is not covered. For \<open>%1$s %2$s\<close> and the one
  argument \<open>7\<close> the highest number is 2, yet text is returned (only the entry at index 2
  of the split array is read as a numbered placeholder); for \<open>%s %s %s\<close> and one
  argument the method throws instead of returning the empty string.
\<close>

theorem prepare_too_few_args_not_rejected:
  "prepare realEscape token True (Some (str ''%1$s %2$s'')) [JNum 7]
   = (Returned (JStr (str ''71$s1$'s'2$s2$'s'undefined'')),
      [WrongPlaceholderCount (8 / 3) 1])
   \<and> prepare realEscape token True (Some (str ''%s %s %s'')) [JNum 7]
     = (Threw TypeError, [])"
  by (simp add: prepare_defs rx_defs)

subsection \<open>Table prefixes\<close>

text \<open>
  C6, as stated: every tenant other than 0 and 1 resolves to the base prefix followed by
  the tenant and an underscore. With \<open>IS_MULTISITE\<close> unset tenant 7 resolves to the bare
  base prefix; with \<open>IS_MULTISITE\<close> set and \<open>MULTISITE\<close> unset tenant 1 resolves to
  \<open>wp_1_\<close>.
\<close>

theorem getBlogPrefix_counterexample:
  "getBlogPrefix Map.empty (initial\<lparr>basePrefix := str ''wp_''\<rparr>) (Some 7) = str ''wp_''
   \<and> str ''wp_'' \<noteq> str ''wp_'' @ Number_toString 7 @ str ''_''
   \<and> getBlogPrefix [''IS_MULTISITE'' \<mapsto> ''1''] (initial\<lparr>basePrefix := str ''wp_''\<rparr>) (Some 1)
       = str ''wp_1_''
   \<and> str ''wp_1_'' \<noteq> str ''wp_''"
  by (simp add: getBlogPrefix_def env_truthy_def initial_def str_def Number_toString_def
                dec_digits.simps)

text \<open>
  C6, amended. The tenant is the argument, or the current \<open>blogId\<close> when the argument is
  \<open>null\<close>. When \<open>IS_MULTISITE\<close> and \<open>MULTISITE\<close> are both set, tenants 0 and 1 resolve
  to the base prefix and every other tenant to base prefix, tenant in decimal, and an
  underscore. When \<open>IS_MULTISITE\<close> is set and \<open>MULTISITE\<close> is not, every tenant, 0 and
  1 as well, resolves to the latter form. When \<open>IS_MULTISITE\<close> is unset every tenant
  resolves to the base prefix.
\<close>

theorem getBlogPrefix_by_mode:
  assumes "tenant = (case blogId_arg of None \<Rightarrow> blogId this | Some b \<Rightarrow> b)"
    and "safe_integer tenant"
  shows "(env_truthy env ''IS_MULTISITE'' \<and> env_truthy env ''MULTISITE'' \<longrightarrow>
            getBlogPrefix env this blogId_arg =
              (if tenant = 0 \<or> tenant = 1 then basePrefix this
               else basePrefix this @ Number_toString tenant @ str ''_''))
       \<and> (env_truthy env ''IS_MULTISITE'' \<and> \<not> env_truthy env ''MULTISITE'' \<longrightarrow>
            getBlogPrefix env this blogId_arg = basePrefix this @ Number_toString tenant @ str ''_'')
       \<and> (\<not> env_truthy env ''IS_MULTISITE'' \<longrightarrow> getBlogPrefix env this blogId_arg = basePrefix this)"
  using assms by (auto simp: getBlogPrefix_def Let_def)

theorem getBlogPrefix_by_mode_witness:
  "safe_integer 7 \<and> safe_integer 1
   \<and> env_truthy [''IS_MULTISITE'' \<mapsto> ''1'', ''MULTISITE'' \<mapsto> ''1''] ''IS_MULTISITE''
   \<and> env_truthy [''IS_MULTISITE'' \<mapsto> ''1'', ''MULTISITE'' \<mapsto> ''1''] ''MULTISITE''
   \<and> getBlogPrefix [''IS_MULTISITE'' \<mapsto> ''1'', ''MULTISITE'' \<mapsto> ''1'']
         (initial\<lparr>basePrefix := str ''wp_''\<rparr>) (Some 7) = str ''wp_7_''
   \<and> getBlogPrefix [''IS_MULTISITE'' \<mapsto> ''1'', ''MULTISITE'' \<mapsto> ''1'']
         (initial\<lparr>basePrefix := str ''wp_'', blogId := 1\<rparr>) None = str ''wp_''
   \<and> env_truthy [''IS_MULTISITE'' \<mapsto> ''1''] ''IS_MULTISITE''
   \<and> \<not> env_truthy [''IS_MULTISITE'' \<mapsto> ''1''] ''MULTISITE''
   \<and> getBlogPrefix [''IS_MULTISITE'' \<mapsto> ''1''] (initial\<lparr>basePrefix := str ''wp_''\<rparr>) (Some 1)
       = str ''wp_1_''
   \<and> \<not> env_truthy Map.empty ''IS_MULTISITE''
   \<and> getBlogPrefix Map.empty (initial\<lparr>basePrefix := str ''wp_''\<rparr>) (Some 7) = str ''wp_''"
  using getBlogPrefix_by_mode [where tenant = 7 and blogId_arg = "Some 7"
          and this = "initial\<lparr>basePrefix := str ''wp_''\<rparr>"
          and env = "[''IS_MULTISITE'' \<mapsto> ''1'', ''MULTISITE'' \<mapsto> ''1'']"]
        getBlogPrefix_by_mode [where tenant = 1 and blogId_arg = None
          and this = "initial\<lparr>basePrefix := str ''wp_'', blogId := 1\<rparr>"
          and env = "[''IS_MULTISITE'' \<mapsto> ''1'', ''MULTISITE'' \<mapsto> ''1'']"]
        getBlogPrefix_by_mode [where tenant = 1 and blogId_arg = "Some 1"
          and this = "initial\<lparr>basePrefix := str ''wp_''\<rparr>"
          and env = "[''IS_MULTISITE'' \<mapsto> ''1'']"]
        getBlogPrefix_by_mode [where tenant = 7 and blogId_arg = "Some 7"
          and this = "initial\<lparr>basePrefix := str ''wp_''\<rparr>" and env = Map.empty]
  by (simp add: safe_integer_def env_truthy_def initial_def str_def Number_toString_def
                dec_digits.simps)

text \<open>
  The test of \<open>setPrefix\<close> finds a match exactly when some code unit of the prefix is
  outside the class.
\<close>

lemma rx_exec_Cls:
  "(rx_exec s (Cls P) q \<noteq> None) = (\<exists>i. q \<le> i \<and> i < length s \<and> P (s ! i))"
proof (induction s "Cls P" q rule: rx_exec.induct)
  case (1 inp q)
  show ?case
  proof (cases "length inp < q")
    case True
    then show ?thesis
      by (simp add: rx_exec.simps [of inp "Cls P" q])
  next
    case False
    show ?thesis
    proof (cases "q < length inp \<and> P (inp ! q)")
      case True
      then have "rx_at inp (Cls P) q = Some (Suc q, no_caps)"
        by (simp add: rx_at_def rx_match.simps)
      with True False show ?thesis
        by (auto simp: rx_exec.simps [of inp "Cls P" q])
    next
      case no: False
      then have at: "rx_at inp (Cls P) q = None"
        by (auto simp: rx_at_def rx_match.simps)
      with False have "rx_exec inp (Cls P) q = rx_exec inp (Cls P) (Suc q)"
        by (simp add: rx_exec.simps [of inp "Cls P" q])
      moreover have "(rx_exec inp (Cls P) (Suc q) \<noteq> None)
                       = (\<exists>i. Suc q \<le> i \<and> i < length inp \<and> P (inp ! i))"
        using "1.hyps" False at by simp
      moreover have "(\<exists>i. Suc q \<le> i \<and> i < length inp \<and> P (inp ! i))
                       = (\<exists>i. q \<le> i \<and> i < length inp \<and> P (inp ! i))"
        using no by (metis Suc_leD Suc_leI le_neq_implies_less)
      ultimately show ?thesis
        by simp
    qed
  qed
qed

lemma rx_test_Cls: "rx_test (Cls P) s = (\<exists>c \<in> set s. P c)"
proof -
  have "rx_test (Cls P) s = (\<exists>i. 0 \<le> i \<and> i < length s \<and> P (s ! i))"
    unfolding rx_test_def by (rule rx_exec_Cls)
  also have "\<dots> = (\<exists>c \<in> set s. P c)"
    by (metis in_set_conv_nth le0)
  finally show ?thesis .
qed

lemma ignore_case_prefix_char:
  "ignore_case (\<lambda>a. rng 97 122 a \<or> is_digit a \<or> a = 95) c = prefix_char c"
  by (auto simp: ignore_case_def prefix_char_def rng_def is_digit_def)

text \<open>
  C7, as stated: the prefix is accepted exactly when it matches \<open>^[A-Za-z0-9_]+$\<close>. The
  empty string does not match, yet \<open>setPrefix('', false)\<close> returns the old prefix and
  stores the empty base prefix, and \<open>setPrefix('')\<close> stores it as well before the call
  of \<open>this.tables\<close> throws; neither returns the invalid-prefix error.
\<close>

theorem setPrefix_empty_counterexample:
  "setPrefix Map.empty [] False (initial\<lparr>basePrefix := str ''wp_''\<rparr>)
     = (Returned (OldPrefix (str ''wp_'')), initial\<lparr>basePrefix := []\<rparr>)
   \<and> fst (setPrefix Map.empty [] True (initial\<lparr>basePrefix := str ''wp_''\<rparr>)) \<noteq> Returned InvalidPrefix"
  by (simp add: setPrefix_def rx_test_Cls rx_invalid_prefix_def tables_call_def initial_def
                env_truthy_def str_def)

text \<open>
  C7, amended. \<open>setPrefix\<close> returns the invalid-prefix error exactly when the prefix
  contains a code unit other than an ASCII letter, a digit or an underscore (so the
  empty prefix is not refused), and when it returns that error no field of the object
  has changed.
\<close>

theorem setPrefix_invalid_iff:
  "(fst (setPrefix env p setTableNames this) = Returned InvalidPrefix)
     = (\<exists>c \<in> set p. \<not> prefix_char c)
   \<and> (fst (setPrefix env p setTableNames this) = Returned InvalidPrefix
        \<longrightarrow> snd (setPrefix env p setTableNames this) = this)"
  by (auto simp: setPrefix_def rx_test_Cls rx_invalid_prefix_def ignore_case_prefix_char
                 tables_call_def Let_def)

theorem setPrefix_invalid_iff_witness:
  "fst (setPrefix Map.empty (str ''wp-1'') True initial) = Returned InvalidPrefix
   \<and> (\<exists>c \<in> set (str ''wp-1''). \<not> prefix_char c)
   \<and> snd (setPrefix Map.empty (str ''wp-1'') True initial) = initial
   \<and> fst (setPrefix Map.empty (str ''wp_1'') False initial) \<noteq> Returned InvalidPrefix
   \<and> \<not> (\<exists>c \<in> set (str ''wp_1''). \<not> prefix_char c)"
  using setPrefix_invalid_iff [of Map.empty "str ''wp-1''" True initial]
        setPrefix_invalid_iff [of Map.empty "str ''wp_1''" False initial]
  by (simp add: str_def prefix_char_def)


subsection \<open>Reconnecting\<close>

lemmas reconnect_defs =
  reconnect_loop.simps checkConnection_def dbConnect_def bail_def initial_def env_truthy_def Let_def

text \<open>
  C8. On a fresh instance (five retries, no connection yet), with every attempt to
  reconnect failing because \<open>createConnection\<close> rejects, \<open>checkConnection\<close> makes one
  attempt, waits for no delay, and ends with the driver's exception instead of
  returning: \<open>dbConnect(false)\<close> rethrows what \<open>createConnection\<close> threw. With
  \<open>WP_DEBUG\<close> set and every attempt failing in \<open>connect\<close>, the fifth pass of the loop
  throws a ReferenceError after four attempts and four delays.
\<close>

theorem checkConnection_rejected_create_throws:
  "checkConnection True Map.empty False (ProbeAnswers 0) (\<lambda>k. CreateRejects) initial
     = (Threw DriverError, initial\<lparr>isMySQL := True\<rparr>, [Reconnect])
   \<and> checkConnection True [''WP_DEBUG'' \<mapsto> ''1''] False (ProbeAnswers 0) (\<lambda>k. ConnectRejects) initial
     = (Threw ReferenceError, initial\<lparr>isMySQL := True\<rparr>,
        [Reconnect, Delay 1000, Reconnect, Delay 1000, Reconnect, Delay 1000,
         Reconnect, Delay 1000])"
  by (simp add: reconnect_defs)

text \<open>
  Where the claim does hold: \<open>WP_DEBUG\<close> is unset and no attempt fails inside
  \<open>createConnection\<close>. Then every pass of the loop makes one attempt and waits 1000 ms,
  whatever the attempt's answer (even a successful \<open>dbConnect(false)\<close> yields
  \<open>undefined\<close>), and with five retries there are five attempts and five delays.
\<close>

lemma reconnect_loop_trace:
  assumes "\<not> env_truthy env ''WP_DEBUG''" and "\<forall>k. attempts k \<noteq> CreateRejects"
  shows "\<exists>this'. reconnect_loop env ep attempts tries this trace
           = (Returned (), this',
              trace @ concat (replicate (nat (reconnectRetries this + 1 - tries))
                                [Reconnect, Delay 1000]))
         \<and> reconnectRetries this' = reconnectRetries this
         \<and> showErrors this' = showErrors this"
  using assms
proof (induction env ep attempts tries this trace rule: reconnect_loop.induct)
  case (1 env error_page attempts tries this trace)
  show ?case
  proof (cases "tries \<le> reconnectRetries this")
    case False
    then show ?thesis
      by (simp add: reconnect_loop.simps [of env error_page attempts tries this trace])
  next
    case True
    obtain v this' where
      dc: "dbConnect False env error_page (attempts (nat (tries - 1))) (nat tries) this
             = (Returned v, this')"
      and f: "\<not> js_truthy v" and r: "reconnectRetries this' = reconnectRetries this"
      and sh: "showErrors this' = showErrors this"
      using "1.prems"(2) [rule_format, of "nat (tries - 1)"]
      by (cases "attempts (nat (tries - 1))") (auto simp: dbConnect_def Let_def)
    from "1.IH" [OF True _ dc [symmetric] refl f] "1.prems" True
    obtain this'' where
      "reconnect_loop env error_page attempts (tries + 1) this' (trace @ [Reconnect, Delay 1000])
         = (Returned (), this'',
            (trace @ [Reconnect, Delay 1000])
            @ concat (replicate (nat (reconnectRetries this' + 1 - (tries + 1)))
                        [Reconnect, Delay 1000]))"
      and "reconnectRetries this'' = reconnectRetries this'"
      and "showErrors this'' = showErrors this'"
      by auto
    moreover have "nat (reconnectRetries this + 1 - tries)
                     = Suc (nat (reconnectRetries this' + 1 - (tries + 1)))"
      using True r by simp
    ultimately show ?thesis
      using True dc f r sh "1.prems"(1)
      by (simp add: reconnect_loop.simps [of env error_page attempts tries this trace])
  qed
qed

lemma checkConnection_five_attempts:
  assumes "\<not> env_truthy env ''WP_DEBUG''" and "\<forall>k. attempts k \<noteq> CreateRejects"
    and "reconnectRetries this = 5" and "dbh this = None \<or> probe_answer = ProbeAnswers 0"
  shows "\<exists>res this'. checkConnection allowBail env ep probe_answer attempts this
           = (res, this',
              [Reconnect, Delay 1000, Reconnect, Delay 1000, Reconnect, Delay 1000,
               Reconnect, Delay 1000, Reconnect, Delay 1000])
         \<and> res \<noteq> Returned (JBool True)"
proof -
  from reconnect_loop_trace [OF assms(1,2), of ep 1 this "[]"] assms(3)
  obtain this' where
    loop: "reconnect_loop env ep attempts 1 this []
             = (Returned (), this',
                [Reconnect, Delay 1000, Reconnect, Delay 1000, Reconnect, Delay 1000,
                 Reconnect, Delay 1000, Reconnect, Delay 1000])"
    by (auto simp: numeral_eq_Suc)
  have probe: "(case dbh this of
                  None \<Rightarrow> Returned False
                | Some c \<Rightarrow> (case probe_answer of
                               ProbeRejects \<Rightarrow> Threw DriverError
                             | ProbeAnswers n \<Rightarrow> Returned (0 < n))) = Returned False"
    using assms(4) by (auto split: option.splits)
  show ?thesis
    unfolding checkConnection_def probe
    by (auto simp: loop bail_def split: option.splits)
qed

subsection \<open>The character set of a table\<close>

text \<open>
  C4. For the table \<open>wp_posts\<close> with the columns \<open>ID bigint(20) unsigned\<close> and
  \<open>thumb blob\<close>, and nothing cached, \<open>getTableCharset\<close> does not return \<open>binary\<close>: the
  loop over \<open>results\<close> iterates over the promise that the asynchronous \<open>getResults\<close>
  returned, which throws a TypeError, and nothing is cached.
\<close>

theorem getTableCharset_blob_throws:
  "getTableCharset (str ''wp_posts'')
     [\<lparr>Field = str ''ID'', Type = str ''bigint(20) unsigned'', Collation = None\<rparr>,
      \<lparr>Field = str ''thumb'', Type = str ''blob'', Collation = None\<rparr>] initial
   = (Threw TypeError, initial)"
  by (simp add: getTableCharset_def cached_charset_def getResults_def initial_def)

text \<open>The same holds for every table without a cached character set.\<close>

lemma getTableCharset_uncached:
  "cached_charset this (toLowerCase table) = None
   \<Longrightarrow> getTableCharset table server_rows this = (Threw TypeError, this)"
  by (simp add: getTableCharset_def getResults_def)

text \<open>
  The statements after the loop do what the claim says, on rows that are at hand: a
  binary or blob column decides for \<open>binary\<close>, and the result is stored under the key.
\<close>

lemma scan_columns_binary:
  "(scan_columns cols charsets = None) = (\<exists>col \<in> set cols. is_binary_column col)"
  by (induction cols arbitrary: charsets) (auto simp: Let_def)

lemma charset_from_rows_cached:
  "tableCharset (snd (charset_from_rows tableKey rows this)) tableKey
     = Some (fst (charset_from_rows tableKey rows this))"
  by (simp add: charset_from_rows_def Let_def)

subsection \<open>Insert, update and delete\<close>

text \<open>
  C9. No call of \<open>insert\<close>, \<open>update\<close> or \<open>delete\<close> with a column map emits the word
  \<open>NULL\<close>, or any SQL at all. \<open>insert\<close> always ends in an exception: a ReferenceError
  from \<open>getColCharset\<close> when a column has a format other than \<open>%d\<close> and \<open>%f\<close>, and
  otherwise a TypeError from the loop over the \<open>undefined\<close> result of \<open>processFields\<close>.
  \<open>update\<close> and \<open>delete\<close> return \<open>false\<close> for every column map, because a map is not
  an array. In each case no statement reaches \<open>this.query\<close>.
\<close>

lemma processFields_never_data:
  "fst (processFields table data format this) \<in>
     {Returned ProcessedUndefined, Threw ReferenceError}"
proof -
  have "processFieldCharsets this table fields \<in> {Returned (), Threw ReferenceError}" for fields
    by (induction this table fields rule: processFieldCharsets.induct)
       (auto simp: getColCharset_def)
  from this [of "processFieldFormats this data format"] show ?thesis
    by (auto simp: processFields_def Let_def split: outcome.splits)
qed

theorem crud_emits_nothing:
  "fst (insert_row table (Object columns) format this) \<in> {Threw TypeError, Threw ReferenceError}
   \<and> snd (snd (insert_row table (Object columns) format this)) = []
   \<and> update_row table (Object columns) where_arg format whereFormat this
       = (Returned (JBool False), this, [])
   \<and> delete_row table (Object columns) whereFormat this = (Returned (JBool False), this, [])
   \<and> insert_row (str ''wp_posts'') (Object [(str ''post_title'', JNull)]) FormatNull initial
       = (Threw ReferenceError, initial, [])"
proof -
  have ins: "toUpperCase (str ''INSERT'') \<in> {str ''REPLACE'', str ''INSERT''}"
    by (simp add: toUpperCase_def str_def)
  from processFields_never_data [of table "Object columns" format "this\<lparr>insertId := 0\<rparr>"]
  have "fst (insert_row table (Object columns) format this)
          \<in> {Threw TypeError, Threw ReferenceError}
        \<and> snd (snd (insert_row table (Object columns) format this)) = []"
    using ins
    by (auto simp: insert_row_def insertReplaceHelper_def Let_def
             split: prod.splits outcome.splits processed.splits)
  moreover have "insert_row (str ''wp_posts'') (Object [(str ''post_title'', JNull)])
                   FormatNull initial = (Threw ReferenceError, initial, [])"
    using ins
    by (simp add: insert_row_def insertReplaceHelper_def processFields_def
                  processFieldFormats_def getColCharset_def numeric_format_def initial_def
                  str_def)
  ultimately show ?thesis
    by (simp add: update_row_def delete_row_def)
qed

theorem crud_emits_nothing_witness:
  "fst (insert_row (str ''wp_posts'') (Object [(str ''post_title'', JNull)]) FormatNull initial)
     \<in> {Threw TypeError, Threw ReferenceError}
   \<and> snd (snd (insert_row (str ''wp_posts'') (Object [(str ''post_title'', JNull)])
                  FormatNull initial)) = []
   \<and> \<not> is_array (Object [(str ''post_title'', JNull)])
   \<and> update_row (str ''wp_posts'') (Object [(str ''post_title'', JNull)])
         (Object [(str ''ID'', JNum 1)]) FormatNull FormatNull initial
       = (Returned (JBool False), initial, [])
   \<and> delete_row (str ''wp_posts'') (Object [(str ''post_title'', JNull)]) FormatNull initial
       = (Returned (JBool False), initial, [])"
  using crud_emits_nothing [where table = "str ''wp_posts''"
          and columns = "[(str ''post_title'', JNull)]" and format = FormatNull
          and this = initial and where_arg = "Object [(str ''ID'', JNum 1)]"
          and whereFormat = FormatNull]
  by simp

subsection \<open>Stripping invalid text\<close>






lemma reset_nil [simp]: "reset [] c = c"
  by (simp add: reset_def)





































subsection \<open>The accessors\<close>

text \<open>
  C10, as stated: the four protected fields can never be changed through the dynamic
  accessors, and for every other name \<open>set\<close> stores the value in the field of that
  name. On an instance whose field \<open>colMeta\<close> holds 1: \<open>unset('colMeta')\<close> deletes the
  field; \<open>set(['colMeta'], 2)\<close> stores 2 in it, because the array is not a member of the
  list of strings and converts to the key \<open>colMeta\<close>; and \<open>set('__proto__', 2)\<close> stores
  nothing, since the assignment runs the inherited setter, which ignores a number.
\<close>

theorem set_prop_counterexample:
  "own (unset (StringName (str ''colMeta''))
          \<lparr>own = [str ''colMeta'' \<mapsto> JNum 1], proto = ClassPrototype\<rparr>) (str ''colMeta'') = None
   \<and> own (set_prop (prop_name_of (JArr [JStr (str ''colMeta'')])) (JNum 2)
             \<lparr>own = [str ''colMeta'' \<mapsto> JNum 1], proto = ClassPrototype\<rparr>) (str ''colMeta'')
       = Some (JNum 2)
   \<and> set_prop (StringName (str ''__proto__'')) (JNum 2)
         \<lparr>own = [str ''colMeta'' \<mapsto> JNum 1], proto = ClassPrototype\<rparr>
       = \<lparr>own = [str ''colMeta'' \<mapsto> JNum 1], proto = ClassPrototype\<rparr>"
  by (simp add: unset_def set_prop_def assign_def prop_name_of_def protectedMembers_def
        inherits_proto_setter_def str_def)

text \<open>
  C10, amended. The guard of \<open>set\<close> holds exactly for the four protected names given as
  strings, and then the call changes nothing. For every other name \<open>set\<close> is the
  assignment \<open>this[name] = value\<close>: it stores the value in the field of the name's
  property key and changes no other field nor the prototype, unless the key is
  \<open>__proto__\<close> and the setter of \<open>Object.prototype\<close> is inherited; then no field changes,
  \<open>null\<close> or an object becomes the prototype and any other value is dropped. A name that
  is not a string is never protected, whatever key it converts to. \<open>unset\<close> has no guard:
  it deletes the field of any name and changes no other field.
\<close>

theorem set_prop_by_name:
  "(includes_name protectedMembers name
      \<longleftrightarrow> (\<exists>s \<in> {''colMeta'', ''tableCharset'', ''checkCurrentQuery'',
                     ''allowUnsafeUnquotedParameters''}. name = StringName (str s)))
   \<and> (includes_name protectedMembers name \<longrightarrow> set_prop name v this = this)
   \<and> (\<not> includes_name protectedMembers name
        \<and> \<not> (property_key name = str ''__proto__'' \<and> inherits_proto_setter this) \<longrightarrow>
        own (set_prop name v this) (property_key name) = Some v
        \<and> (\<forall>other. other \<noteq> property_key name
               \<longrightarrow> own (set_prop name v this) other = own this other)
        \<and> proto (set_prop name v this) = proto this)
   \<and> (\<not> includes_name protectedMembers name
        \<and> property_key name = str ''__proto__'' \<and> inherits_proto_setter this \<longrightarrow>
        own (set_prop name v this) = own this
        \<and> proto (set_prop name v this)
            = (case v of JNull \<Rightarrow> NullPrototype | JArr xs \<Rightarrow> ObjectPrototype v
               | other \<Rightarrow> proto this))
   \<and> own (unset name this) (property_key name) = None
   \<and> (\<forall>other. other \<noteq> property_key name \<longrightarrow> own (unset name this) other = own this other)
   \<and> proto (unset name this) = proto this"
proof -
  have guard: "includes_name protectedMembers name
      \<longleftrightarrow> (\<exists>s \<in> {''colMeta'', ''tableCharset'', ''checkCurrentQuery'',
                     ''allowUnsafeUnquotedParameters''}. name = StringName (str s))"
    by (cases name) (auto simp: protectedMembers_def)
  have kept: "includes_name protectedMembers name \<longrightarrow> set_prop name v this = this"
    by (simp add: set_prop_def)
  have field: "\<not> includes_name protectedMembers name
        \<and> \<not> (property_key name = str ''__proto__'' \<and> inherits_proto_setter this) \<longrightarrow>
        own (set_prop name v this) (property_key name) = Some v
        \<and> (\<forall>other. other \<noteq> property_key name
               \<longrightarrow> own (set_prop name v this) other = own this other)
        \<and> proto (set_prop name v this) = proto this"
    by (auto simp: set_prop_def assign_def)
  have setter: "\<not> includes_name protectedMembers name
        \<and> property_key name = str ''__proto__'' \<and> inherits_proto_setter this \<longrightarrow>
        own (set_prop name v this) = own this
        \<and> proto (set_prop name v this)
            = (case v of JNull \<Rightarrow> NullPrototype | JArr xs \<Rightarrow> ObjectPrototype v
               | other \<Rightarrow> proto this)"
    by (cases v) (auto simp: set_prop_def assign_def)
  have deleted: "own (unset name this) (property_key name) = None
      \<and> (\<forall>other. other \<noteq> property_key name \<longrightarrow> own (unset name this) other = own this other)
      \<and> proto (unset name this) = proto this"
    by (simp add: unset_def)
  from guard kept field setter deleted show ?thesis
    by blast
qed

theorem set_prop_by_name_witness:
  "includes_name protectedMembers (StringName (str ''colMeta''))
   \<and> set_prop (StringName (str ''colMeta'')) (JNum 2)
         \<lparr>own = [str ''colMeta'' \<mapsto> JNum 1], proto = ClassPrototype\<rparr>
       = \<lparr>own = [str ''colMeta'' \<mapsto> JNum 1], proto = ClassPrototype\<rparr>
   \<and> \<not> includes_name protectedMembers (StringName (str ''prefix''))
   \<and> own (set_prop (StringName (str ''prefix'')) (JNum 2)
             \<lparr>own = [str ''colMeta'' \<mapsto> JNum 1], proto = ClassPrototype\<rparr>) (str ''prefix'')
       = Some (JNum 2)
   \<and> own (set_prop (StringName (str ''prefix'')) (JNum 2)
             \<lparr>own = [str ''colMeta'' \<mapsto> JNum 1], proto = ClassPrototype\<rparr>) (str ''colMeta'')
       = Some (JNum 1)
   \<and> \<not> includes_name protectedMembers (OtherName (str ''colMeta''))
   \<and> own (set_prop (OtherName (str ''colMeta'')) (JNum 2)
             \<lparr>own = [str ''colMeta'' \<mapsto> JNum 1], proto = ClassPrototype\<rparr>) (str ''colMeta'')
       = Some (JNum 2)
   \<and> inherits_proto_setter \<lparr>own = [str ''colMeta'' \<mapsto> JNum 1], proto = ClassPrototype\<rparr>
   \<and> set_prop (StringName (str ''__proto__'')) JNull
         \<lparr>own = [str ''colMeta'' \<mapsto> JNum 1], proto = ClassPrototype\<rparr>
       = \<lparr>own = [str ''colMeta'' \<mapsto> JNum 1], proto = NullPrototype\<rparr>
   \<and> own (unset (StringName (str ''colMeta''))
             \<lparr>own = [str ''colMeta'' \<mapsto> JNum 1], proto = ClassPrototype\<rparr>) (str ''colMeta'')
       = None"
  using set_prop_by_name [of "StringName (str ''colMeta'')" "JNum 2"
          "\<lparr>own = [str ''colMeta'' \<mapsto> JNum 1], proto = ClassPrototype\<rparr>"]
        set_prop_by_name [of "StringName (str ''prefix'')" "JNum 2"
          "\<lparr>own = [str ''colMeta'' \<mapsto> JNum 1], proto = ClassPrototype\<rparr>"]
        set_prop_by_name [of "OtherName (str ''colMeta'')" "JNum 2"
          "\<lparr>own = [str ''colMeta'' \<mapsto> JNum 1], proto = ClassPrototype\<rparr>"]
        set_prop_by_name [of "StringName (str ''__proto__'')" JNull
          "\<lparr>own = [str ''colMeta'' \<mapsto> JNum 1], proto = ClassPrototype\<rparr>"]
  by (simp add: protectedMembers_def inherits_proto_setter_def str_def)

end
